theory Spec2Isabelle
  imports Main "HOL-Library.AList"
begin

section \<open>The scheduler core of APScheduler: \<^verbatim>\<open>apscheduler/schedulers/base.py\<close>\<close>

text \<open>
  The class \<^verbatim>\<open>BaseScheduler\<close> is embedded as functions over an explicit scheduler state.
  A method that mutates the scheduler returns the new state next to its outcome, and the
  state is kept when the method raises: the outcome is \<open>Inl\<close> of the exception or \<open>Inr\<close> of
  the returned value, and the state component holds every mutation made up to that point.

  Job stores, executors, triggers and the \<^verbatim>\<open>Job\<close> class live in other modules. They
  enter the embedding as parameters (the record \<open>collaborators\<close> and the function-valued
  fields of jobs and executors), so that every statement about the scheduler holds for
  every implementation of those interfaces. A call of such a parameter returns a value or
  raises.

  The clock is read by the caller: each reading \<^verbatim>\<open>datetime.now(self.timezone)\<close> is a
  parameter of the function that takes it. The three locks are not modelled (the embedding
  is sequential), nor are the parsing of the configuration, the registry of listeners
  behind \<^verbatim>\<open>_notify_listeners\<close>, \<^verbatim>\<open>scheduled_job\<close> and \<^verbatim>\<open>print_jobs\<close>.
\<close>

subsection \<open>Values, exceptions, events\<close>

text \<open>
  A timezone-aware \<^verbatim>\<open>datetime\<close> is identified with its instant, counted in microseconds
  from \<^verbatim>\<open>datetime.min\<close>; aware datetimes compare by instant.
\<close>

type_synonym datetime = int

text \<open>The dynamically typed values that occur as job ids, change sets and trigger arguments.\<close>

datatype pyval = PyNone | PyStr string | PyInt int | PyDateTime datetime | PyTz string

type_synonym changes = "(string \<times> pyval) list"

datatype exn =
    SchedulerAlreadyRunningError
  | SchedulerNotRunningError
  | MaxInstancesReachedError
  | KeyError string
  | AttributeError string
  | OverflowError string
  | OtherError string

text \<open>
  \<^verbatim>\<open>t + timedelta(microseconds=1)\<close>: the last instant a \<^verbatim>\<open>datetime\<close> can hold is
  \<^verbatim>\<open>datetime.max\<close>, the end of the year 9999, which is 3652059 days of 86400000000
  microseconds after \<^verbatim>\<open>datetime.min\<close>, less one microsecond; the addition raises
  \<^verbatim>\<open>OverflowError\<close> beyond it. Python bounds the local time of the value; the
  embedding bounds the instant, which is the same in the timezone UTC.
\<close>

definition datetime_max :: datetime where
  "datetime_max = 315537897599999999"

definition add_microsecond :: "datetime \<Rightarrow> exn + datetime" where
  "add_microsecond t =
     (if t < datetime_max then Inr (t + 1) else Inl (OverflowError ''date value out of range''))"

datatype event_code =
    EVENT_SCHEDULER_START
  | EVENT_SCHEDULER_SHUTDOWN
  | EVENT_JOBSTORE_ADDED
  | EVENT_JOBSTORE_REMOVED
  | EVENT_JOBSTORE_JOB_ADDED
  | EVENT_JOBSTORE_JOB_MODIFIED
  | EVENT_JOBSTORE_JOB_REMOVED

datatype event =
    SchedulerEvent event_code
  | JobStoreEvent event_code string "pyval option"

datatype level = Debug | Info | Warning | Error | Exception

text \<open>
  What the scheduler does to the outside world, in the order it does it: a call of the
  logger (level and format string), an event handed to \<^verbatim>\<open>_notify_listeners\<close>, a call of
  the abstract \<^verbatim>\<open>_wakeup\<close>, a call of \<^verbatim>\<open>executor.submit_job\<close> (executor alias, job
  id, run times, and the exception it raised, if any), and the start and shutdown of an
  executor.
\<close>

datatype effect =
    Log level string
  | Notify event
  | Wakeup
  | Submit string pyval "datetime list" "exn option"
  | ExecutorStart string
  | ExecutorShutdown string bool

subsection \<open>Jobs, executors, the scheduler\<close>

text \<open>
  The attributes of a \<^verbatim>\<open>Job\<close>. The scheduler reads \<^verbatim>\<open>id\<close>, \<^verbatim>\<open>executor\<close>,
  \<^verbatim>\<open>coalesce\<close>, \<^verbatim>\<open>runs\<close>, \<^verbatim>\<open>max_runs\<close>, \<^verbatim>\<open>max_instances\<close> and the trigger, and
  writes \<^verbatim>\<open>next_run_time\<close>. The trigger is the method
  \<^verbatim>\<open>job.trigger.get_next_fire_time\<close>, which returns the next fire time or \<^verbatim>\<open>None\<close>, or
  raises.
\<close>

record job =
  job_id :: pyval
  func :: string
  args :: "pyval list"
  kwargs :: "(string \<times> pyval) list"
  name :: pyval
  trigger :: "datetime \<Rightarrow> exn + datetime option"
  executor :: string
  misfire_grace_time :: "int option"
  coalesce :: bool
  max_runs :: "int option"
  max_instances :: int
  next_run_time :: "datetime option"
  runs :: int

text \<open>
  An executor is given by the outcome of its three methods; \<open>None\<close> is a call that returns,
  \<open>Some e\<close> one that raises \<open>e\<close>.
\<close>

record executor =
  submit_job :: "job \<Rightarrow> datetime list \<Rightarrow> exn option"
  exec_start :: "exn option"
  exec_shutdown :: "bool \<Rightarrow> exn option"

text \<open>
  The dictionaries \<^verbatim>\<open>_executors\<close> and \<^verbatim>\<open>_jobstores\<close> are association lists (lookup is
  \<open>map_of\<close>, iteration runs through the list); a job store is a value of the type \<open>'st\<close>
  of store states.
\<close>

record 'st scheduler =
  stopped :: bool
  executors :: "(string \<times> executor) list"
  jobstores :: "(string \<times> 'st) list"
  pending_jobs :: "(job \<times> string) list"
  sched_misfire_grace_time :: int
  sched_coalesce :: bool
  timezone :: string
  trace :: "effect list"

text \<open>The keyword arguments that \<^verbatim>\<open>add_job\<close> hands to the \<^verbatim>\<open>Job\<close> constructor.\<close>

datatype trigger_ref =
  TriggerName string | TriggerInstance "datetime \<Rightarrow> exn + datetime option"

record job_kwargs =
  kw_trigger :: trigger_ref
  kw_trigger_args :: "(string \<times> pyval) list"
  kw_executor :: string
  kw_func :: string
  kw_args :: "pyval list"
  kw_kwargs :: "(string \<times> pyval) list"
  kw_id :: pyval
  kw_name :: pyval
  kw_misfire_grace_time :: "int option"
  kw_coalesce :: bool
  kw_max_runs :: "int option"
  kw_max_instances :: int

text \<open>The arguments of \<^verbatim>\<open>add_job\<close>; \<open>None\<close> is Python's \<^verbatim>\<open>None\<close>.\<close>

record add_job_args =
  arg_func :: string
  arg_trigger :: "trigger_ref option"
  arg_args :: "pyval list option"
  arg_kwargs :: "(string \<times> pyval) list option"
  arg_id :: pyval
  arg_name :: pyval
  arg_misfire_grace_time :: "int option"
  arg_coalesce :: "bool option"
  arg_max_runs :: "int option"
  arg_max_instances :: int
  arg_jobstore :: string
  arg_executor :: string
  arg_trigger_args :: "(string \<times> pyval) list"

text \<open>\<^verbatim>\<open>JobHandle(self, alias, job)\<close>: the store alias and the job it was built from.\<close>

record job_handle =
  handle_jobstore :: string
  handle_job :: job

text \<open>
  The collaborators of the scheduler that are defined in other modules: the \<^verbatim>\<open>Job\<close>
  class (its constructor and the methods \<^verbatim>\<open>get_run_times\<close>, \<^verbatim>\<open>modify\<close> and
  \<^verbatim>\<open>validate_changes\<close>), the job store interface, and the default store and executor
  that \<^verbatim>\<open>start\<close> installs. A store method returns the new store state or raises.
  \<^verbatim>\<open>store.add_job\<close> may assign the id of the job, so it returns the job as well.
\<close>

record 'st collaborators =
  Job :: "job_kwargs \<Rightarrow> exn + job"
  get_run_times :: "job \<Rightarrow> datetime \<Rightarrow> exn + datetime list"
  modify :: "job \<Rightarrow> changes \<Rightarrow> exn + job"
  validate_changes :: "job \<Rightarrow> changes \<Rightarrow> exn + changes"
  store_add_job :: "'st \<Rightarrow> job \<Rightarrow> exn + 'st \<times> job"
  store_lookup_job :: "'st \<Rightarrow> pyval \<Rightarrow> exn + job"
  store_modify_job :: "'st \<Rightarrow> pyval \<Rightarrow> changes \<Rightarrow> exn + 'st"
  store_remove_job :: "'st \<Rightarrow> pyval \<Rightarrow> exn + 'st"
  store_remove_all_jobs :: "'st \<Rightarrow> exn + 'st"
  store_get_all_jobs :: "'st \<Rightarrow> exn + job list"
  get_pending_jobs :: "'st \<Rightarrow> datetime \<Rightarrow> exn + job list \<times> datetime option"
  store_close :: "'st \<Rightarrow> exn + 'st"
  create_default_jobstore :: "'st"
  create_default_executor :: executor

subsection \<open>Small helpers of the class\<close>

definition running :: "'st scheduler \<Rightarrow> bool" where
  "running s = (\<not> stopped s)"

definition emit :: "effect \<Rightarrow> 'st scheduler \<Rightarrow> 'st scheduler" where
  "emit e s = s\<lparr>trace := trace s @ [e]\<rparr>"

text \<open>
  \<^verbatim>\<open>_notify_listeners\<close> calls the registered callbacks and swallows what they raise; the
  embedding records the event.
\<close>

definition notify_listeners :: "event \<Rightarrow> 'st scheduler \<Rightarrow> 'st scheduler" where
  "notify_listeners ev s = emit (Notify ev) s"

definition wakeup :: "'st scheduler \<Rightarrow> 'st scheduler" where
  "wakeup s = emit Wakeup s"

definition set_jobstore :: "string \<Rightarrow> 'st \<Rightarrow> 'st scheduler \<Rightarrow> 'st scheduler" where
  "set_jobstore alias st s = s\<lparr>jobstores := AList.update alias st (jobstores s)\<rparr>"

definition lookup_executor :: "'st scheduler \<Rightarrow> string \<Rightarrow> exn + executor" where
  "lookup_executor s alias =
     (case map_of (executors s) alias of
        None \<Rightarrow> Inl (KeyError (''No such executor: '' @ alias))
      | Some ex \<Rightarrow> Inr ex)"

subsection \<open>\<^verbatim>\<open>remove_job\<close>\<close>

text \<open>
  The loop over \<^verbatim>\<open>enumerate(self._pending_jobs)\<close>: the first entry whose job has the id is
  deleted; \<open>None\<close> when the loop ends without a match.
\<close>

fun del_pending :: "pyval \<Rightarrow> (job \<times> string) list \<Rightarrow> (job \<times> string) list option" where
  "del_pending jid [] = None"
| "del_pending jid ((j, store) # ps) =
     (if job_id j = jid then Some ps
      else map_option ((#) (j, store)) (del_pending jid ps))"

definition remove_job ::
  "'st collaborators \<Rightarrow> 'st scheduler \<Rightarrow> pyval \<Rightarrow> string \<Rightarrow> (exn + unit) \<times> 'st scheduler" where
  "remove_job D s jid jobstore =
     (case del_pending jid (pending_jobs s) of
        Some ps \<Rightarrow> (Inr (), s\<lparr>pending_jobs := ps\<rparr>)
      | None \<Rightarrow>
         (case map_of (jobstores s) jobstore of
            None \<Rightarrow> (Inl (KeyError jobstore), s)
          | Some st \<Rightarrow>
             (case store_remove_job D st jid of
                Inl e \<Rightarrow> (Inl e, s)
              | Inr st' \<Rightarrow>
                 (Inr (),
                  emit (Log Info ''Removed job %s'')
                    (notify_listeners (JobStoreEvent EVENT_JOBSTORE_JOB_REMOVED jobstore (Some jid))
                      (set_jobstore jobstore st' s))))))"

subsection \<open>The firing loop \<^verbatim>\<open>_process_jobs\<close>\<close>

text \<open>
  \<^verbatim>\<open>min(next_wakeup_time, t) if next_wakeup_time else t\<close>; a datetime is always true, so
  the test is the test for \<^verbatim>\<open>None\<close>.
\<close>

definition fold_wakeup :: "datetime option \<Rightarrow> datetime \<Rightarrow> datetime option" where
  "fold_wakeup nwt t = (case nwt of None \<Rightarrow> Some t | Some w \<Rightarrow> Some (min w t))"

text \<open>\<^verbatim>\<open>run_times[-1:] if run_times and job.coalesce else run_times\<close>\<close>

definition coalesced :: "job \<Rightarrow> datetime list \<Rightarrow> datetime list" where
  "coalesced j run_times = (if run_times \<noteq> [] \<and> coalesce j then [last run_times] else run_times)"

text \<open>
  The statements after a successful submission: the job is updated in the store when it
  has a next run time and has not reached \<^verbatim>\<open>max_runs\<close>, and removed otherwise. None of
  these statements stands in a \<^verbatim>\<open>try\<close>: what the addition of the microsecond, the trigger
  or the store raises leaves the block. The local variable \<^verbatim>\<open>jobstore\<close> is the object
  \<^verbatim>\<open>self._jobstores[jobstore_alias]\<close>; it is read from the state under that alias, which
  the enclosing loop took from the dictionary.
\<close>

definition update_or_remove ::
  "'st collaborators \<Rightarrow> datetime \<Rightarrow> string \<Rightarrow> job \<Rightarrow> datetime list \<Rightarrow> datetime option
     \<Rightarrow> 'st scheduler \<Rightarrow> (exn + datetime option) \<times> 'st scheduler" where
  "update_or_remove D now jobstore_alias j run_times next_wakeup_time s =
     (let job_runs = runs j + int (length run_times) in
      case add_microsecond now of
        Inl e \<Rightarrow> (Inl e, s)
      | Inr after \<Rightarrow>
         (case trigger j after of
            Inl e \<Rightarrow> (Inl e, s)
          | Inr job_next_run \<Rightarrow>
             if job_next_run \<noteq> None \<and> (max_runs j = None \<or> job_runs < the (max_runs j)) then
               (case map_of (jobstores s) jobstore_alias of
                  None \<Rightarrow> (Inl (KeyError jobstore_alias), s)
                | Some st \<Rightarrow>
                   (case store_modify_job D st (job_id j)
                           [(''next_run_time'', PyDateTime (the job_next_run)),
                            (''runs'', PyInt job_runs)] of
                      Inl e \<Rightarrow> (Inl e, s)
                    | Inr st' \<Rightarrow>
                       (Inr (fold_wakeup next_wakeup_time (the job_next_run)),
                        set_jobstore jobstore_alias st' s)))
             else
               (case remove_job D s (job_id j) jobstore_alias of
                  (Inl e, s') \<Rightarrow> (Inl e, s')
                | (Inr u, s') \<Rightarrow> (Inr next_wakeup_time, s'))))"

text \<open>
  The body of \<^verbatim>\<open>for job in jobs\<close>, for the store registered as \<open>jobstore_alias\<close>. Each
  \<^verbatim>\<open>continue\<close> returns the next wakeup time as it was. \<^verbatim>\<open>job.get_run_times(now)\<close> is
  called outside the two \<^verbatim>\<open>try\<close> blocks: what it raises leaves the body.
\<close>

definition process_job ::
  "'st collaborators \<Rightarrow> datetime \<Rightarrow> string \<Rightarrow> job \<Rightarrow> datetime option \<Rightarrow> 'st scheduler
     \<Rightarrow> (exn + datetime option) \<times> 'st scheduler" where
  "process_job D now jobstore_alias j next_wakeup_time s =
     (case lookup_executor s (executor j) of
        Inl e \<Rightarrow>
          (Inr next_wakeup_time, emit (Log Error ''Executor lookup failed for job \"%s\": %s'') s)
      | Inr ex \<Rightarrow>
          (case get_run_times D j now of
             Inl e \<Rightarrow> (Inl e, s)
           | Inr all_run_times \<Rightarrow>
              (let run_times = coalesced j all_run_times in
               if run_times = [] then (Inr next_wakeup_time, s)
               else
                 (let s1 = emit (Submit (executor j) (job_id j) run_times
                                   (submit_job ex j run_times)) s
                  in case submit_job ex j run_times of
                       Some e \<Rightarrow>
                         if e = MaxInstancesReachedError then
                           (Inr next_wakeup_time,
                            emit (Log Warning
                              ''Execution of job \"%s\" skipped: maximum number of running instances reached (%d)'')
                              s1)
                         else
                           (Inr next_wakeup_time,
                            emit (Log Exception ''Error submitting job \"%s\" to executor \"%s\"'')
                              s1)
                     | None \<Rightarrow>
                         update_or_remove D now jobstore_alias j run_times next_wakeup_time s1))))"

text \<open>\<^verbatim>\<open>for job in jobs\<close>: an exception that leaves the body ends the loop.\<close>

fun process_due_jobs ::
  "'st collaborators \<Rightarrow> datetime \<Rightarrow> string \<Rightarrow> job list \<Rightarrow> datetime option \<Rightarrow> 'st scheduler
     \<Rightarrow> (exn + datetime option) \<times> 'st scheduler" where
  "process_due_jobs D now alias [] nwt s = (Inr nwt, s)"
| "process_due_jobs D now alias (j # js) nwt s =
     (case process_job D now alias j nwt s of
        (Inl e, s') \<Rightarrow> (Inl e, s')
      | (Inr nwt', s') \<Rightarrow> process_due_jobs D now alias js nwt' s')"

text \<open>
  The first statements of \<^verbatim>\<open>for jobstore_alias, jobstore in six.iteritems(self._jobstores)\<close>:
  the due scan and the fold of the store's next wakeup time.
\<close>

definition fold_store_wakeup :: "datetime option \<Rightarrow> datetime option \<Rightarrow> datetime option" where
  "fold_store_wakeup nwt store_nwt =
     (case nwt of
        None \<Rightarrow> store_nwt
      | Some w \<Rightarrow> (case store_nwt of None \<Rightarrow> Some w | Some t \<Rightarrow> Some (min w t)))"

fun process_jobstores ::
  "'st collaborators \<Rightarrow> datetime \<Rightarrow> (string \<times> 'st) list \<Rightarrow> datetime option \<Rightarrow> 'st scheduler
     \<Rightarrow> (exn + datetime option) \<times> 'st scheduler" where
  "process_jobstores D now [] nwt s = (Inr nwt, s)"
| "process_jobstores D now ((alias, st) # stores) nwt s =
     (case get_pending_jobs D st now of
        Inl e \<Rightarrow> (Inl e, s)
      | Inr (jobs, store_nwt) \<Rightarrow>
         (case process_due_jobs D now alias jobs (fold_store_wakeup nwt store_nwt) s of
            (Inl e, s') \<Rightarrow> (Inl e, s')
          | (Inr nwt', s') \<Rightarrow> process_jobstores D now stores nwt' s'))"

text \<open>
  \<^verbatim>\<open>_process_jobs\<close>, with the reading of the clock as the parameter \<open>now\<close>. It returns the
  wait until the next wakeup (\<^verbatim>\<open>timedelta_seconds\<close> turns it into seconds; the embedding
  keeps microseconds), or \<open>None\<close>.
\<close>

definition process_jobs ::
  "'st collaborators \<Rightarrow> 'st scheduler \<Rightarrow> datetime \<Rightarrow> (exn + int option) \<times> 'st scheduler" where
  "process_jobs D s now =
     (let s0 = emit (Log Debug ''Looking for jobs to run'') s in
      case process_jobstores D now (jobstores s0) None s0 of
        (Inl e, s') \<Rightarrow> (Inl e, s')
      | (Inr next_wakeup_time, s') \<Rightarrow>
         (case next_wakeup_time of
            Some t \<Rightarrow>
              (Inr (Some (t - now)),
               emit (Log Debug ''Next wakeup is due at %s (in %f seconds)'')
                 (emit (Log Debug ''now = %s, next_wakeup_time = %s'') s'))
          | None \<Rightarrow> (Inr None, emit (Log Debug ''No jobs; waiting until a job is added'') s')))"

subsection \<open>\<^verbatim>\<open>modify_job\<close>\<close>

text \<open>
  The loop over \<^verbatim>\<open>self._pending_jobs\<close>: the first entry whose job has the id is modified
  with \<^verbatim>\<open>job.modify(changes)\<close>, which may raise; \<open>None\<close> when the loop ends without a match
  (the \<^verbatim>\<open>else\<close> branch of the loop).
\<close>

fun modify_pending ::
  "'st collaborators \<Rightarrow> pyval \<Rightarrow> changes \<Rightarrow> (job \<times> string) list
     \<Rightarrow> (exn + (job \<times> string) list) option" where
  "modify_pending D jid ch [] = None"
| "modify_pending D jid ch ((j, store) # ps) =
     (if job_id j = jid then
        Some (case modify D j ch of Inl e \<Rightarrow> Inl e | Inr j' \<Rightarrow> Inr ((j', store) # ps))
      else map_option (map_sum (\<lambda>e. e) ((#) (j, store))) (modify_pending D jid ch ps))"

definition modify_job ::
  "'st collaborators \<Rightarrow> 'st scheduler \<Rightarrow> pyval \<Rightarrow> string \<Rightarrow> changes
     \<Rightarrow> (exn + unit) \<times> 'st scheduler" where
  "modify_job D s jid jobstore ch =
     (case modify_pending D jid ch (pending_jobs s) of
        Some (Inl e) \<Rightarrow> (Inl e, s)
      | Some (Inr ps) \<Rightarrow> (Inr (), s\<lparr>pending_jobs := ps\<rparr>)
      | None \<Rightarrow>
         (case map_of (jobstores s) jobstore of
            None \<Rightarrow> (Inl (KeyError jobstore), s)
          | Some st \<Rightarrow>
             (case store_lookup_job D st (case map_of ch ''id'' of None \<Rightarrow> jid | Some v \<Rightarrow> v) of
                Inl e \<Rightarrow> (Inl e, s)
              | Inr j \<Rightarrow>
                 (case validate_changes D j ch of
                    Inl e \<Rightarrow> (Inl e, s)
                  | Inr ch' \<Rightarrow>
                     (case store_modify_job D st jid ch' of
                        Inl e \<Rightarrow> (Inl e, s)
                      | Inr st' \<Rightarrow>
                         (Inr (),
                          wakeup
                            (notify_listeners
                               (JobStoreEvent EVENT_JOBSTORE_JOB_MODIFIED jobstore (Some jid))
                               (set_jobstore jobstore st' s))))))))"

subsection \<open>\<^verbatim>\<open>get_jobs\<close>, \<^verbatim>\<open>get_job\<close>, \<^verbatim>\<open>remove_all_jobs\<close>\<close>

text \<open>
  The arguments: \<open>jobstore\<close> is \<^verbatim>\<open>None\<close> or a string; \<open>pending\<close> is \<^verbatim>\<open>True\<close>,
  \<^verbatim>\<open>False\<close> or anything else (\<open>None\<close>). A string is true when it is not empty.
\<close>

definition truthy :: "string option \<Rightarrow> bool" where
  "truthy x = (case x of None \<Rightarrow> False | Some a \<Rightarrow> a \<noteq> [])"

definition pending_handles :: "'st scheduler \<Rightarrow> string option \<Rightarrow> job_handle list" where
  "pending_handles s jobstore =
     map (\<lambda>(j, alias). \<lparr>handle_jobstore = alias, handle_job = j\<rparr>)
       (filter (\<lambda>(j, alias). jobstore = None \<or> Some alias = jobstore) (pending_jobs s))"

text \<open>\<^verbatim>\<open>for alias, store in ...: for job in store.get_all_jobs(): jobs.append(...)\<close>\<close>

fun store_handles ::
  "'st collaborators \<Rightarrow> (string \<times> 'st) list \<Rightarrow> job_handle list \<Rightarrow> exn + job_handle list" where
  "store_handles D [] jobs = Inr jobs"
| "store_handles D ((alias, st) # stores) jobs =
     (case store_get_all_jobs D st of
        Inl e \<Rightarrow> Inl e
      | Inr js \<Rightarrow>
         store_handles D stores
           (jobs @ map (\<lambda>j. \<lparr>handle_jobstore = alias, handle_job = j\<rparr>) js))"

text \<open>
  When \<open>jobstore\<close> is given, \<^verbatim>\<open>jobstores\<close> is the list \<^verbatim>\<open>[jobstore]\<close>, and
  \<^verbatim>\<open>six.iteritems\<close> of a list raises \<^verbatim>\<open>AttributeError\<close>: a list has neither
  \<^verbatim>\<open>iteritems\<close> nor \<^verbatim>\<open>items\<close>.
\<close>

definition get_jobs ::
  "'st collaborators \<Rightarrow> 'st scheduler \<Rightarrow> string option \<Rightarrow> bool option \<Rightarrow> exn + job_handle list" where
  "get_jobs D s jobstore pending =
     (let jobs = (if pending \<noteq> Some False then pending_handles s jobstore else []) in
      if pending \<noteq> Some True then
        (if truthy jobstore then Inl (AttributeError ''items'')
         else store_handles D (jobstores s) jobs)
      else Inr jobs)"

definition get_job :: "'st collaborators \<Rightarrow> 'st scheduler \<Rightarrow> pyval \<Rightarrow> string \<Rightarrow> exn + job_handle" where
  "get_job D s jid jobstore =
     (case map_of (jobstores s) jobstore of
        None \<Rightarrow> Inl (KeyError jobstore)
      | Some st \<Rightarrow>
         (case store_lookup_job D st jid of
            Inl e \<Rightarrow> Inl e
          | Inr j \<Rightarrow> Inr \<lparr>handle_jobstore = jobstore, handle_job = j\<rparr>))"

fun remove_all_from ::
  "'st collaborators \<Rightarrow> string list \<Rightarrow> 'st scheduler \<Rightarrow> (exn + unit) \<times> 'st scheduler" where
  "remove_all_from D [] s = (Inr (), s)"
| "remove_all_from D (alias # aliases) s =
     (case map_of (jobstores s) alias of
        None \<Rightarrow> (Inl (KeyError alias), s)
      | Some st \<Rightarrow>
         (case store_remove_all_jobs D st of
            Inl e \<Rightarrow> (Inl e, s)
          | Inr st' \<Rightarrow> remove_all_from D aliases (set_jobstore alias st' s)))"

definition remove_all_jobs ::
  "'st collaborators \<Rightarrow> 'st scheduler \<Rightarrow> string option \<Rightarrow> (exn + unit) \<times> 'st scheduler" where
  "remove_all_jobs D s jobstore =
     remove_all_from D (if truthy jobstore then [the jobstore] else map fst (jobstores s)) s"

subsection \<open>Registering executors and job stores\<close>

definition add_executor ::
  "'st scheduler \<Rightarrow> executor \<Rightarrow> string \<Rightarrow> (exn + unit) \<times> 'st scheduler" where
  "add_executor s ex alias =
     (if map_of (executors s) alias \<noteq> None then
        (Inl (KeyError
           (''This scheduler already has an executor by the alias of \"'' @ alias @ ''\"'')), s)
      else
        (let s1 = s\<lparr>executors := AList.update alias ex (executors s)\<rparr> in
         if running s1 then
           (case exec_start ex of
              Some e \<Rightarrow> (Inl e, s1)
            | None \<Rightarrow> (Inr (), emit (ExecutorStart alias) s1))
         else (Inr (), s1)))"

definition add_jobstore ::
  "'st scheduler \<Rightarrow> 'st \<Rightarrow> string \<Rightarrow> bool \<Rightarrow> (exn + unit) \<times> 'st scheduler" where
  "add_jobstore s st alias quiet =
     (if map_of (jobstores s) alias \<noteq> None then
        (Inl (KeyError (''Alias \"'' @ alias @ ''\" is already in use'')), s)
      else
        (let s1 = notify_listeners (JobStoreEvent EVENT_JOBSTORE_ADDED alias None)
                    (set_jobstore alias st s)
         in (Inr (), if \<not> quiet \<and> running s1 then wakeup s1 else s1)))"

definition remove_jobstore ::
  "'st collaborators \<Rightarrow> 'st scheduler \<Rightarrow> string \<Rightarrow> bool \<Rightarrow> (exn + unit) \<times> 'st scheduler" where
  "remove_jobstore D s alias close =
     (case map_of (jobstores s) alias of
        None \<Rightarrow> (Inl (KeyError alias), s)
      | Some st \<Rightarrow>
         (let s1 = s\<lparr>jobstores := AList.delete alias (jobstores s)\<rparr>;
              s2 = notify_listeners (JobStoreEvent EVENT_JOBSTORE_REMOVED alias None) s1
          in if close then
               (case store_close D st of Inl e \<Rightarrow> (Inl e, s1) | Inr st' \<Rightarrow> (Inr (), s2))
             else (Inr (), s2)))"

subsection \<open>\<^verbatim>\<open>add_job\<close> and \<^verbatim>\<open>_real_add_job\<close>\<close>

text \<open>\<^verbatim>\<open>d.setdefault(k, v)\<close> on an association list.\<close>

definition setdefault :: "string \<Rightarrow> pyval \<Rightarrow> (string \<times> pyval) list \<Rightarrow> (string \<times> pyval) list" where
  "setdefault k v d = (if map_of d k = None then d @ [(k, v)] else d)"

text \<open>
  The first half of \<^verbatim>\<open>add_job\<close>, up to the dictionary \<^verbatim>\<open>job_kwargs\<close>. \<open>now\<close> is the
  reading \<^verbatim>\<open>datetime.now(self.timezone)\<close>, taken only when no trigger is given. The three
  assignments of the branch \<^verbatim>\<open>if trigger is None\<close> come first; the entry for
  \<^verbatim>\<open>misfire_grace_time\<close> is then computed from the reassigned variable.
\<close>

definition add_job_kwargs :: "'st scheduler \<Rightarrow> datetime \<Rightarrow> add_job_args \<Rightarrow> job_kwargs" where
  "add_job_kwargs s now a =
     (let trigger = (case arg_trigger a of None \<Rightarrow> TriggerName ''date'' | Some t \<Rightarrow> t);
          trigger_args0 =
            (case arg_trigger a of
               None \<Rightarrow> AList.update ''run_date'' (PyDateTime now) (arg_trigger_args a)
             | Some t \<Rightarrow> arg_trigger_args a);
          misfire_grace_time0 =
            (case arg_trigger a of None \<Rightarrow> None | Some t \<Rightarrow> arg_misfire_grace_time a);
          trigger_args = setdefault ''timezone'' (PyTz (timezone s)) trigger_args0
      in \<lparr>kw_trigger = trigger,
          kw_trigger_args = trigger_args,
          kw_executor = arg_executor a,
          kw_func = arg_func a,
          kw_args = (case arg_args a of None \<Rightarrow> [] | Some xs \<Rightarrow> xs),
          kw_kwargs = (case arg_kwargs a of None \<Rightarrow> [] | Some kvs \<Rightarrow> kvs),
          kw_id = arg_id a,
          kw_name = arg_name a,
          kw_misfire_grace_time =
            (case misfire_grace_time0 of
               None \<Rightarrow> Some (sched_misfire_grace_time s)
             | Some g \<Rightarrow> Some g),
          kw_coalesce = (case arg_coalesce a of None \<Rightarrow> sched_coalesce s | Some c \<Rightarrow> c),
          kw_max_runs = arg_max_runs a,
          kw_max_instances = arg_max_instances a\<rparr>)"

text \<open>
  \<^verbatim>\<open>_real_add_job\<close>, with its reading of the clock as the parameter \<open>now\<close>. The method
  assigns \<^verbatim>\<open>job.next_run_time\<close> and the store may assign the id, so the job as it is
  after the call is returned with the outcome. When the trigger raises, nothing has been
  assigned.
\<close>

definition real_add_job ::
  "'st collaborators \<Rightarrow> 'st scheduler \<Rightarrow> datetime \<Rightarrow> job \<Rightarrow> string \<Rightarrow> bool
     \<Rightarrow> (exn + unit) \<times> job \<times> 'st scheduler" where
  "real_add_job D s now j jobstore wake =
     (case trigger j now of
        Inl e \<Rightarrow> (Inl e, j, s)
      | Inr first_run \<Rightarrow>
         (let j1 = j\<lparr>next_run_time := first_run\<rparr> in
          case map_of (jobstores s) jobstore of
            None \<Rightarrow> (Inl (KeyError (''No such job store: '' @ jobstore)), j1, s)
          | Some st \<Rightarrow>
             (case store_add_job D st j1 of
                Inl e \<Rightarrow> (Inl e, j1, s)
              | Inr (st', j2) \<Rightarrow>
                 (let s1 = emit (Log Info ''Added job \"%s\" to job store \"%s\"'')
                             (notify_listeners
                                (JobStoreEvent EVENT_JOBSTORE_JOB_ADDED jobstore (Some (job_id j2)))
                                (set_jobstore jobstore st' s))
                  in (Inr (), j2, if wake then wakeup s1 else s1)))))"

text \<open>
  \<^verbatim>\<open>add_job\<close>: \<open>now\<close> is the reading of the clock in \<^verbatim>\<open>add_job\<close> itself, \<open>now'\<close> the
  later one in \<^verbatim>\<open>_real_add_job\<close>.
\<close>

definition add_job ::
  "'st collaborators \<Rightarrow> 'st scheduler \<Rightarrow> datetime \<Rightarrow> datetime \<Rightarrow> add_job_args
     \<Rightarrow> (exn + job_handle) \<times> 'st scheduler" where
  "add_job D s now now' a =
     (case Job D (add_job_kwargs s now a) of
        Inl e \<Rightarrow> (Inl e, s)
      | Inr j \<Rightarrow>
         if \<not> running s then
           (Inr \<lparr>handle_jobstore = arg_jobstore a, handle_job = j\<rparr>,
            emit (Log Info
              ''Adding job tentatively -- it will be properly scheduled when the scheduler starts'')
              (s\<lparr>pending_jobs := pending_jobs s @ [(j, arg_jobstore a)]\<rparr>))
         else
           (case real_add_job D s now' j (arg_jobstore a) True of
              (Inl e, j', s') \<Rightarrow> (Inl e, s')
            | (Inr u, j', s') \<Rightarrow> (Inr \<lparr>handle_jobstore = arg_jobstore a, handle_job = j'\<rparr>, s')))"

subsection \<open>\<^verbatim>\<open>start\<close> and \<^verbatim>\<open>shutdown\<close>\<close>

fun start_executors ::
  "(string \<times> executor) list \<Rightarrow> 'st scheduler \<Rightarrow> (exn + unit) \<times> 'st scheduler" where
  "start_executors [] s = (Inr (), s)"
| "start_executors ((alias, ex) # exs) s =
     (case exec_start ex of
        Some e \<Rightarrow> (Inl e, s)
      | None \<Rightarrow> start_executors exs (emit (ExecutorStart alias) s))"

text \<open>
  \<^verbatim>\<open>for job, jobstore in self._pending_jobs: self._real_add_job(job, jobstore, False)\<close>.
  The \<open>k\<close>-th call reads the clock as \<open>clock k\<close>. The jobs are the objects in the pending
  list, which stays as it is until the loop has ended; \<open>pre\<close> holds the entries already
  added, with their jobs as \<^verbatim>\<open>_real_add_job\<close> left them.
\<close>

fun add_pending_jobs ::
  "'st collaborators \<Rightarrow> (nat \<Rightarrow> datetime) \<Rightarrow> nat \<Rightarrow> (job \<times> string) list \<Rightarrow> (job \<times> string) list
     \<Rightarrow> 'st scheduler \<Rightarrow> (exn + unit) \<times> 'st scheduler" where
  "add_pending_jobs D clock k pre [] s = (Inr (), s)"
| "add_pending_jobs D clock k pre ((j, jobstore) # ps) s =
     (case real_add_job D s (clock k) j jobstore False of
        (Inl e, j', s') \<Rightarrow> (Inl e, s'\<lparr>pending_jobs := pre @ (j', jobstore) # ps\<rparr>)
      | (Inr u, j', s') \<Rightarrow>
          add_pending_jobs D clock (Suc k) (pre @ [(j', jobstore)]) ps
            (s'\<lparr>pending_jobs := pre @ (j', jobstore) # ps\<rparr>))"

definition start ::
  "'st collaborators \<Rightarrow> 'st scheduler \<Rightarrow> (nat \<Rightarrow> datetime) \<Rightarrow> (exn + unit) \<times> 'st scheduler" where
  "start D s clock =
     (if running s then (Inl SchedulerAlreadyRunningError, s)
      else
        (case (if map_of (executors s) ''default'' = None
               then add_executor s (create_default_executor D) ''default''
               else (Inr (), s)) of
           (Inl e, s1) \<Rightarrow> (Inl e, s1)
         | (Inr u, s1) \<Rightarrow>
            (case (if map_of (jobstores s1) ''default'' = None
                   then add_jobstore s1 (create_default_jobstore D) ''default'' True
                   else (Inr (), s1)) of
               (Inl e, s2) \<Rightarrow> (Inl e, s2)
             | (Inr u, s2) \<Rightarrow>
                (case start_executors (executors s2) s2 of
                   (Inl e, s3) \<Rightarrow> (Inl e, s3)
                 | (Inr u, s3) \<Rightarrow>
                    (case add_pending_jobs D clock 0 [] (pending_jobs s3) s3 of
                       (Inl e, s4) \<Rightarrow> (Inl e, s4)
                     | (Inr u, s4) \<Rightarrow>
                        (Inr (),
                         notify_listeners (SchedulerEvent EVENT_SCHEDULER_START)
                           (emit (Log Info ''Scheduler started'')
                              (s4\<lparr>pending_jobs := [], stopped := False\<rparr>))))))))"

fun shutdown_executors ::
  "bool \<Rightarrow> (string \<times> executor) list \<Rightarrow> 'st scheduler \<Rightarrow> (exn + unit) \<times> 'st scheduler" where
  "shutdown_executors wait [] s = (Inr (), s)"
| "shutdown_executors wait ((alias, ex) # exs) s =
     (case exec_shutdown ex wait of
        Some e \<Rightarrow> (Inl e, s)
      | None \<Rightarrow> shutdown_executors wait exs (emit (ExecutorShutdown alias wait) s))"

fun close_jobstores ::
  "'st collaborators \<Rightarrow> (string \<times> 'st) list \<Rightarrow> 'st scheduler \<Rightarrow> (exn + unit) \<times> 'st scheduler" where
  "close_jobstores D [] s = (Inr (), s)"
| "close_jobstores D ((alias, st) # stores) s =
     (case store_close D st of
        Inl e \<Rightarrow> (Inl e, s)
      | Inr st' \<Rightarrow> close_jobstores D stores (set_jobstore alias st' s))"

definition shutdown ::
  "'st collaborators \<Rightarrow> 'st scheduler \<Rightarrow> bool \<Rightarrow> (exn + unit) \<times> 'st scheduler" where
  "shutdown D s wait =
     (if \<not> running s then (Inl SchedulerNotRunningError, s)
      else
        (let s1 = s\<lparr>stopped := True\<rparr> in
         case shutdown_executors wait (executors s1) s1 of
           (Inl e, s2) \<Rightarrow> (Inl e, s2)
         | (Inr u, s2) \<Rightarrow>
            (case close_jobstores D (jobstores s2) s2 of
               (Inl e, s3) \<Rightarrow> (Inl e, s3)
             | (Inr u, s3) \<Rightarrow>
                (Inr (),
                 notify_listeners (SchedulerEvent EVENT_SCHEDULER_SHUTDOWN)
                   (emit (Log Info ''Scheduler has been shut down'') s3)))))"

section \<open>Reference collaborators\<close>

text \<open>
  The theorems about the scheduler hold for all collaborators. To run the scheduler on
  concrete inputs, this section gives one implementation of each interface, following the
  contracts of the specification.
\<close>

subsection \<open>Triggers\<close>

text \<open>
  Modelled from the spec: the trigger classes, which are not among the sources. A trigger
  answers "given an instant, what is the next firing instant?", the first fire time that is
  not before the argument, or \<^verbatim>\<open>None\<close>. There are a one-shot trigger, and a trigger that
  fires at \<open>first\<close>, \<open>first + period\<close>, \<open>first + 2 * period\<close>, and so on.
\<close>

definition date_trigger :: "datetime \<Rightarrow> datetime \<Rightarrow> exn + datetime option" where
  "date_trigger run_date after = Inr (if after \<le> run_date then Some run_date else None)"

definition interval_trigger :: "datetime \<Rightarrow> int \<Rightarrow> datetime \<Rightarrow> exn + datetime option" where
  "interval_trigger first period after =
     Inr (if after \<le> first then Some first
          else Some (first + period * ((after - first + period - 1) div period)))"

subsection \<open>The \<^verbatim>\<open>Job\<close> class\<close>

text \<open>
  Modelled from the spec: the constructor of \<^verbatim>\<open>Job\<close> (\<^verbatim>\<open>apscheduler/job.py\<close> is not
  among the sources). A job is a value object holding what it was created with, with no
  next run time and no runs yet. The trigger is the given instance, or the one-shot
  trigger built from the argument \<^verbatim>\<open>run_date\<close> when the plugin name is \<^verbatim>\<open>date\<close>.
\<close>

definition spec_Job :: "job_kwargs \<Rightarrow> exn + job" where
  "spec_Job kw =
     (case (case kw_trigger kw of
              TriggerInstance f \<Rightarrow> Inr f
            | TriggerName n \<Rightarrow>
               (if n = ''date'' then
                  (case map_of (kw_trigger_args kw) ''run_date'' of
                     Some (PyDateTime t) \<Rightarrow> Inr (date_trigger t)
                   | _ \<Rightarrow> Inl (OtherError ''run_date''))
                else Inl (KeyError n))) of
        Inl e \<Rightarrow> Inl e
      | Inr f \<Rightarrow>
         Inr \<lparr>job_id = kw_id kw, func = kw_func kw, args = kw_args kw, kwargs = kw_kwargs kw,
              name = kw_name kw, trigger = f,
              executor = kw_executor kw, misfire_grace_time = kw_misfire_grace_time kw,
              coalesce = kw_coalesce kw, max_runs = kw_max_runs kw,
              max_instances = kw_max_instances kw, next_run_time = None, runs = 0\<rparr>)"

text \<open>
  Modelled from the spec: \<^verbatim>\<open>Job.get_run_times\<close>, "every trigger fire time in
  \<^verbatim>\<open>[next_run_time, T]\<close> still within \<^verbatim>\<open>misfire_grace_time\<close> of \<^verbatim>\<open>T\<close>"; a run "whose
  intended time is older than \<^verbatim>\<open>now - grace\<close>" is a misfire, the grace being in seconds.
  The fire times are enumerated from \<^verbatim>\<open>next_run_time\<close> by asking the trigger for the
  next one after each; what the trigger raises, the enumeration raises. The enumeration
  is bounded by the number of instants in the interval, which a trigger that moves forward
  never exceeds; \<open>None\<close> is an enumeration that did not end within the bound.
\<close>

fun fire_times ::
  "nat \<Rightarrow> (datetime \<Rightarrow> exn + datetime option) \<Rightarrow> datetime option \<Rightarrow> datetime
     \<Rightarrow> (exn + datetime list) option" where
  "fire_times 0 tr t now = None"
| "fire_times (Suc n) tr None now = Some (Inr [])"
| "fire_times (Suc n) tr (Some t) now =
     (if t \<le> now then
        (case add_microsecond t of
           Inl e \<Rightarrow> Some (Inl e)
         | Inr after \<Rightarrow>
            (case tr after of
               Inl e \<Rightarrow> Some (Inl e)
             | Inr next_time \<Rightarrow>
                map_option (map_sum (\<lambda>e. e) ((#) t)) (fire_times n tr next_time now)))
      else Some (Inr []))"

definition within_grace :: "job \<Rightarrow> datetime \<Rightarrow> datetime \<Rightarrow> bool" where
  "within_grace j now t =
     (case misfire_grace_time j of None \<Rightarrow> True | Some g \<Rightarrow> now - g * 1000000 \<le> t)"

definition spec_get_run_times :: "job \<Rightarrow> datetime \<Rightarrow> exn + datetime list" where
  "spec_get_run_times j now =
     (case next_run_time j of
        None \<Rightarrow> Inr []
      | Some t0 \<Rightarrow>
         (case fire_times (nat (now - t0) + 2) (trigger j) (Some t0) now of
            None \<Rightarrow> Inr []
          | Some (Inl e) \<Rightarrow> Inl e
          | Some (Inr ts) \<Rightarrow> Inr (filter (within_grace j now) ts)))"

text \<open>
  Modelled from the spec: \<^verbatim>\<open>Job.validate_changes\<close> ("rejecting unknown or inconsistent
  keys") and \<^verbatim>\<open>Job.modify\<close> ("apply changes to that in-memory Job").
\<close>

definition apply_change :: "job \<Rightarrow> string \<times> pyval \<Rightarrow> job" where
  "apply_change j kv =
     (case kv of (k, v) \<Rightarrow>
        if k = ''id'' then j\<lparr>job_id := v\<rparr>
        else if k = ''name'' then j\<lparr>name := v\<rparr>
        else if k = ''next_run_time'' then
          j\<lparr>next_run_time := (case v of PyDateTime t \<Rightarrow> Some t | _ \<Rightarrow> None)\<rparr>
        else if k = ''runs'' then j\<lparr>runs := (case v of PyInt n \<Rightarrow> n | _ \<Rightarrow> runs j)\<rparr>
        else if k = ''max_runs'' then
          j\<lparr>max_runs := (case v of PyInt n \<Rightarrow> Some n | _ \<Rightarrow> None)\<rparr>
        else j)"

definition known_change :: "string \<times> pyval \<Rightarrow> bool" where
  "known_change kv =
     (case kv of (k, v) \<Rightarrow>
        if k = ''id'' \<or> k = ''name'' then (case v of PyStr x \<Rightarrow> True | _ \<Rightarrow> False)
        else if k = ''next_run_time'' then
          (case v of PyDateTime t \<Rightarrow> True | PyNone \<Rightarrow> True | _ \<Rightarrow> False)
        else if k = ''runs'' then (case v of PyInt n \<Rightarrow> True | _ \<Rightarrow> False)
        else if k = ''max_runs'' then
          (case v of PyInt n \<Rightarrow> True | PyNone \<Rightarrow> True | _ \<Rightarrow> False)
        else False)"

definition spec_validate_changes :: "job \<Rightarrow> changes \<Rightarrow> exn + changes" where
  "spec_validate_changes j ch =
     (if list_all known_change ch then Inr ch else Inl (OtherError ''invalid change''))"

definition spec_modify :: "job \<Rightarrow> changes \<Rightarrow> exn + job" where
  "spec_modify j ch =
     (case spec_validate_changes j ch of
        Inl e \<Rightarrow> Inl e
      | Inr ch' \<Rightarrow> Inr (foldl apply_change j ch'))"

subsection \<open>An in-memory job store\<close>

text \<open>
  Modelled from the spec: the job store contract (the store classes are not among the
  sources). The store is the list of its jobs, whose ids are distinct.
  \<^item> \<^verbatim>\<open>add_job\<close>: "insert; assign id if absent; fails if id collides";
  \<^item> \<^verbatim>\<open>lookup_job\<close>: "fetch or fail with JobNotFound";
  \<^item> \<^verbatim>\<open>modify_job\<close>: "partial update of an existing job";
  \<^item> \<^verbatim>\<open>remove_job\<close>: "delete or fail";
  \<^item> the due scan: "every job whose \<^verbatim>\<open>next_run_time \<le> T\<close> plus the earliest
    \<^verbatim>\<open>next_run_time\<close> strictly greater than \<^verbatim>\<open>T\<close> (may be \<^verbatim>\<open>None\<close>)".
\<close>

definition has_job :: "job list \<Rightarrow> pyval \<Rightarrow> bool" where
  "has_job st jid = (list_ex (\<lambda>j. job_id j = jid) st)"

definition fresh_id :: "job list \<Rightarrow> pyval" where
  "fresh_id st = PyInt (1 + foldr (\<lambda>j m. case job_id j of PyInt i \<Rightarrow> max i m | _ \<Rightarrow> m) st 0)"

definition mem_add_job :: "job list \<Rightarrow> job \<Rightarrow> exn + job list \<times> job" where
  "mem_add_job st j =
     (let j' = (if job_id j = PyNone then j\<lparr>job_id := fresh_id st\<rparr> else j) in
      if has_job st (job_id j') then Inl (KeyError ''job id already in use'')
      else Inr (st @ [j'], j'))"

definition mem_lookup_job :: "job list \<Rightarrow> pyval \<Rightarrow> exn + job" where
  "mem_lookup_job st jid =
     (case find (\<lambda>j. job_id j = jid) st of
        None \<Rightarrow> Inl (KeyError ''job not found'')
      | Some j \<Rightarrow> Inr j)"

definition mem_modify_job :: "job list \<Rightarrow> pyval \<Rightarrow> changes \<Rightarrow> exn + job list" where
  "mem_modify_job st jid ch =
     (if has_job st jid then
        Inr (map (\<lambda>j. if job_id j = jid then foldl apply_change j ch else j) st)
      else Inl (KeyError ''job not found''))"

definition mem_remove_job :: "job list \<Rightarrow> pyval \<Rightarrow> exn + job list" where
  "mem_remove_job st jid =
     (if has_job st jid then Inr (filter (\<lambda>j. job_id j \<noteq> jid) st)
      else Inl (KeyError ''job not found''))"

definition is_due :: "datetime \<Rightarrow> job \<Rightarrow> bool" where
  "is_due now j = (case next_run_time j of None \<Rightarrow> False | Some t \<Rightarrow> t \<le> now)"

definition earliest_after :: "datetime \<Rightarrow> job list \<Rightarrow> datetime option" where
  "earliest_after now st =
     foldr (\<lambda>j acc.
              case next_run_time j of
                None \<Rightarrow> acc
              | Some t \<Rightarrow>
                 if now < t then (case acc of None \<Rightarrow> Some t | Some w \<Rightarrow> Some (min t w))
                 else acc)
       st None"

definition mem_get_pending_jobs :: "job list \<Rightarrow> datetime \<Rightarrow> exn + job list \<times> datetime option" where
  "mem_get_pending_jobs st now = Inr (filter (is_due now) st, earliest_after now st)"

text \<open>
  An executor that accepts every submission, one that has no free instance, and one whose
  every submission fails.
\<close>

definition idle_executor :: executor where
  "idle_executor =
     \<lparr>submit_job = (\<lambda>j run_times. None), exec_start = None, exec_shutdown = (\<lambda>wait. None)\<rparr>"

definition busy_executor :: executor where
  "busy_executor =
     \<lparr>submit_job = (\<lambda>j run_times. Some MaxInstancesReachedError), exec_start = None,
      exec_shutdown = (\<lambda>wait. None)\<rparr>"


definition mem :: "job list collaborators" where
  "mem =
     \<lparr>Job = spec_Job,
      get_run_times = spec_get_run_times,
      modify = spec_modify,
      validate_changes = spec_validate_changes,
      store_add_job = mem_add_job,
      store_lookup_job = mem_lookup_job,
      store_modify_job = mem_modify_job,
      store_remove_job = mem_remove_job,
      store_remove_all_jobs = (\<lambda>st. Inr []),
      store_get_all_jobs = (\<lambda>st. Inr st),
      get_pending_jobs = mem_get_pending_jobs,
      store_close = (\<lambda>st. Inr st),
      create_default_jobstore = [],
      create_default_executor = idle_executor\<rparr>"

text \<open>
  The same collaborators with a store whose backend cannot be reached: the due scan and the
  two updates that the firing loop makes raise.
\<close>

definition offline :: "job list collaborators" where
  "offline =
     mem\<lparr>get_pending_jobs := (\<lambda>st now. Inl (OtherError ''connection lost'')),
         store_modify_job := (\<lambda>st jid ch. Inl (OtherError ''connection lost'')),
         store_remove_job := (\<lambda>st jid. Inl (OtherError ''connection lost''))\<rparr>"

subsection \<open>Sample jobs and schedulers\<close>

text \<open>
  A job that fires every 10 microseconds from instant 0, was last scheduled for
  instant 0, does not coalesce and may run twice.
\<close>

definition tick_job :: job where
  "tick_job =
     \<lparr>job_id = PyStr ''tick'', func = ''tasks:tick'', args = [], kwargs = [], name = PyNone,
      trigger = interval_trigger 0 10, executor = ''default'', misfire_grace_time = None,
      coalesce = False, max_runs = Some 2, max_instances = 1, next_run_time = Some 0,
      runs = 0\<rparr>"



definition scheduler_with ::
  "bool \<Rightarrow> executor \<Rightarrow> job list \<Rightarrow> (job \<times> string) list \<Rightarrow> job list scheduler" where
  "scheduler_with stop ex stored pend =
     \<lparr>stopped = stop, executors = [(''default'', ex)], jobstores = [(''default'', stored)],
      pending_jobs = pend, sched_misfire_grace_time = 1, sched_coalesce = True,
      timezone = ''UTC'', trace = []\<rparr>"

definition run_now_args :: add_job_args where
  "run_now_args =
     \<lparr>arg_func = ''tasks:tick'', arg_trigger = None, arg_args = None, arg_kwargs = None,
      arg_id = PyStr ''now'', arg_name = PyNone, arg_misfire_grace_time = None,
      arg_coalesce = None, arg_max_runs = None, arg_max_instances = 1,
      arg_jobstore = ''default'', arg_executor = ''default'', arg_trigger_args = []\<rparr>"

text \<open>
  A stopped scheduler to which two jobs with the id \<^verbatim>\<open>now\<close> have been added: the first for
  the store \<^verbatim>\<open>default\<close>, the second, with another function, for the store \<^verbatim>\<open>archive\<close>.
\<close>

definition same_id_twice :: "job list scheduler" where
  "same_id_twice =
     snd (add_job mem
            (snd (add_job mem (scheduler_with True idle_executor [] []) 1000 1001 run_now_args))
            2000 2001 (run_now_args\<lparr>arg_func := ''tasks:tock'', arg_jobstore := ''archive''\<rparr>))"

definition is_submit :: "effect \<Rightarrow> bool" where
  "is_submit e = (case e of Submit a i ts r \<Rightarrow> True | _ \<Rightarrow> False)"

section \<open>Properties\<close>

subsection \<open>Auxiliary facts\<close>

lemma is_submit_simps [simp]:
  "is_submit (Submit a i ts r)" "\<not> is_submit (Log l m)" "\<not> is_submit (Notify ev)"
  "\<not> is_submit Wakeup" "\<not> is_submit (ExecutorStart a)" "\<not> is_submit (ExecutorShutdown a w)"
  by (simp_all add: is_submit_def)


lemma del_pending_first:
  "\<forall>(p, b) \<in> set pre. job_id p \<noteq> jid \<Longrightarrow> job_id j = jid
     \<Longrightarrow> del_pending jid (pre @ (j, a) # post) = Some (pre @ post)"
  by (induction pre) auto

lemma modify_pending_none:
  "(modify_pending D jid ch ps = None) = (\<forall>(p, a) \<in> set ps. job_id p \<noteq> jid)"
  by (induction ps) (auto split: if_splits)

lemma modify_pending_first:
  "\<forall>(p, b) \<in> set pre. job_id p \<noteq> jid \<Longrightarrow> job_id j = jid
     \<Longrightarrow> modify_pending D jid ch (pre @ (j, a) # post) =
         Some (case modify D j ch of Inl e \<Rightarrow> Inl e | Inr j' \<Rightarrow> Inr (pre @ (j', a) # post))"
  by (induction pre) (auto split: sum.splits)

lemma remove_job_submits:
  "filter is_submit (trace (snd (remove_job D s jid a))) = filter is_submit (trace s)"
  by (simp add: remove_job_def emit_def notify_listeners_def set_jobstore_def
        split: option.splits sum.splits)

lemma update_or_remove_submits:
  "filter is_submit (trace (snd (update_or_remove D now a j ts nwt s))) =
     filter is_submit (trace s)"
proof (cases "remove_job D s (job_id j) a")
  case (Pair r s')
  with remove_job_submits [of D s "job_id j" a] show ?thesis
    by (simp add: update_or_remove_def set_jobstore_def Let_def split: option.splits sum.splits)
qed

lemma add_microsecond_cases:
  "add_microsecond t = Inr after \<Longrightarrow> after = t + 1"
  by (simp add: add_microsecond_def split: if_splits)

text \<open>
  The bound on the enumeration of fire times is enough for every trigger that moves
  forward, that is, whose answer is never before the instant it is asked about.
\<close>

lemma fire_times_ends:
  assumes forward: "\<And>a t. tr a = Inr (Some t) \<Longrightarrow> a \<le> t"
  shows "nat (now - t) + 2 \<le> n \<Longrightarrow> fire_times n tr (Some t) now \<noteq> None"
proof (induction n arbitrary: t)
  case 0
  then show ?case by simp
next
  case (Suc n)
  show ?case
  proof (cases "t \<le> now")
    case False
    then show ?thesis by simp
  next
    case True
    with Suc.prems have n: "nat (now - t) + 1 \<le> n" by simp
    then obtain m where m: "n = Suc m" by (cases n) auto
    show ?thesis
    proof (cases "add_microsecond t")
      case (Inl e)
      with True show ?thesis by simp
    next
      case after: (Inr after)
      from add_microsecond_cases [OF after] have a: "after = t + 1" .
      show ?thesis
      proof (cases "tr after")
        case (Inl e)
        with after True show ?thesis by simp
      next
        case (Inr next_time)
        show ?thesis
        proof (cases next_time)
          case None
          with Inr after True m show ?thesis by simp
        next
          case (Some t')
          from forward [of after t'] Inr Some a have later: "t + 1 \<le> t'" by simp
          show ?thesis
          proof (cases "t' \<le> now")
            case False
            with Some Inr after True m show ?thesis by simp
          next
            case inside: True
            with later n have "nat (now - t') + 2 \<le> n" by linarith
            from Suc.IH [OF this] Some Inr after True show ?thesis by simp
          qed
        qed
      qed
    qed
  qed
qed

text \<open>The sample inputs, evaluated.\<close>

lemma tick_fields [simp]:
  "job_id tick_job = PyStr ''tick''" "executor tick_job = ''default''"
  "coalesce tick_job = False" "max_runs tick_job = Some 2" "runs tick_job = 0"
  "next_run_time tick_job = Some 0" "misfire_grace_time tick_job = None"
  "trigger tick_job = interval_trigger 0 10"
  by (simp_all add: tick_job_def)

lemma add_microsecond_small [simp]:
  "add_microsecond 0 = Inr 1" "add_microsecond 10 = Inr 11" "add_microsecond 20 = Inr 21"
  by (simp_all add: add_microsecond_def datetime_max_def)


lemma tick_fire_times_20:
  "fire_times 22 (interval_trigger 0 10) (Some 0) 20 = Some (Inr [0, 10, 20])"
  by (simp add: interval_trigger_def eval_nat_numeral)

lemma tick_run_times_20: "spec_get_run_times tick_job 20 = Inr [0, 10, 20]"
  by (simp add: spec_get_run_times_def within_grace_def tick_fire_times_20)

lemma coalescing_tick_run_times_20:
  "spec_get_run_times (tick_job\<lparr>coalesce := True\<rparr>) 20 = Inr [0, 10, 20]"
  by (simp add: spec_get_run_times_def within_grace_def tick_fire_times_20)

lemma mem_fields [simp]:
  "get_run_times mem = spec_get_run_times" "store_modify_job mem = mem_modify_job"
  "store_remove_job mem = mem_remove_job" "get_pending_jobs mem = mem_get_pending_jobs"
  "store_lookup_job mem = mem_lookup_job" "validate_changes mem = spec_validate_changes"
  "modify mem = spec_modify" "Job mem = spec_Job" "store_add_job mem = mem_add_job"
  "store_get_all_jobs mem = Inr" "store_close mem = Inr"
  by (simp_all add: mem_def)

lemma offline_fields [simp]:
  "get_run_times offline = spec_get_run_times"
  "store_modify_job offline = (\<lambda>st jid ch. Inl (OtherError ''connection lost''))"
  "store_remove_job offline = (\<lambda>st jid. Inl (OtherError ''connection lost''))"
  "get_pending_jobs offline = (\<lambda>st now. Inl (OtherError ''connection lost''))"
  by (simp_all add: offline_def mem_def)

lemma scheduler_with_fields [simp]:
  "stopped (scheduler_with b ex stored pend) = b"
  "executors (scheduler_with b ex stored pend) = [(''default'', ex)]"
  "jobstores (scheduler_with b ex stored pend) = [(''default'', stored)]"
  "pending_jobs (scheduler_with b ex stored pend) = pend"
  "sched_misfire_grace_time (scheduler_with b ex stored pend) = 1"
  "sched_coalesce (scheduler_with b ex stored pend) = True"
  "timezone (scheduler_with b ex stored pend) = ''UTC''"
  "trace (scheduler_with b ex stored pend) = []"
  by (simp_all add: scheduler_with_def)

lemma run_now_fields [simp]:
  "arg_jobstore run_now_args = ''default''" "arg_trigger run_now_args = None"
  by (simp_all add: run_now_args_def)

lemma sample_shutdown:
  "shutdown mem (scheduler_with False idle_executor [tick_job] []) True =
     (Inr (),
      (scheduler_with True idle_executor [tick_job] [])
        \<lparr>trace := [ExecutorShutdown ''default'' True, Log Info ''Scheduler has been shut down'',
                   Notify (SchedulerEvent EVENT_SCHEDULER_SHUTDOWN)]\<rparr>)"
  by (simp add: shutdown_def running_def scheduler_with_def idle_executor_def emit_def
      notify_listeners_def set_jobstore_def Let_def)

lemma sample_run_now_job:
  "sched_misfire_grace_time s = 1 \<Longrightarrow> sched_coalesce s \<Longrightarrow>
   spec_Job (add_job_kwargs s 1000 run_now_args) =
     Inr \<lparr>job_id = PyStr ''now'', func = ''tasks:tick'', args = [], kwargs = [],
          name = PyNone,
          trigger = date_trigger 1000, executor = ''default'',
          misfire_grace_time = Some 1, coalesce = True, max_runs = None,
          max_instances = 1, next_run_time = None, runs = 0\<rparr>"
  by (simp add: add_job_kwargs_def run_now_args_def spec_Job_def setdefault_def Let_def)

lemma sample_backlog_run:
  "process_jobs mem (scheduler_with False idle_executor [tick_job] []) 20 =
     (Inr None,
      (scheduler_with False idle_executor [] [])
        \<lparr>trace :=
           [Log Debug ''Looking for jobs to run'',
            Submit ''default'' (PyStr ''tick'') [0, 10, 20] None,
            Notify (JobStoreEvent EVENT_JOBSTORE_JOB_REMOVED ''default'' (Some (PyStr ''tick''))),
            Log Info ''Removed job %s'',
            Log Debug ''No jobs; waiting until a job is added'']\<rparr>)"
  by (simp add: process_jobs_def mem_get_pending_jobs_def is_due_def earliest_after_def
      fold_store_wakeup_def process_job_def lookup_executor_def coalesced_def tick_run_times_20
      idle_executor_def emit_def update_or_remove_def remove_job_def interval_trigger_def
      mem_remove_job_def has_job_def notify_listeners_def set_jobstore_def scheduler_with_def
      Let_def)

subsection \<open>The pending list is empty while the scheduler runs\<close>

text \<open>
  \<^verbatim>\<open>start\<close> empties the pending list when it sets the scheduler running, \<^verbatim>\<open>add_job\<close>
  appends to the list only while the scheduler is stopped, and no other method makes an
  empty pending list non-empty or sets a stopped scheduler running. So the firing loop of
  a running scheduler finds the pending list empty.
\<close>

lemma start_clears_pending:
  assumes ok: "start D s clock = (Inr (), s')"
  shows "running s' \<and> pending_jobs s' = []"
proof -
  have nr: "\<not> running s"
    using ok by (cases "running s") (simp_all add: start_def)
  let ?r1 = "if map_of (executors s) ''default'' = None
             then add_executor s (create_default_executor D) ''default'' else (Inr (), s)"
  obtain x1 s1 where r1: "?r1 = (x1, s1)" by (cases ?r1)
  let ?r2 = "if map_of (jobstores s1) ''default'' = None
             then add_jobstore s1 (create_default_jobstore D) ''default'' True else (Inr (), s1)"
  obtain x2 s2 where r2: "?r2 = (x2, s2)" by (cases ?r2)
  obtain x3 s3 where r3: "start_executors (executors s2) s2 = (x3, s3)"
    by (cases "start_executors (executors s2) s2")
  obtain x4 s4 where r4: "add_pending_jobs D clock 0 [] (pending_jobs s3) s3 = (x4, s4)"
    by (cases "add_pending_jobs D clock 0 [] (pending_jobs s3) s3")
  have unfolded: "start D s clock =
      (case x1 of Inl e \<Rightarrow> (Inl e, s1) | Inr u \<Rightarrow>
       (case x2 of Inl e \<Rightarrow> (Inl e, s2) | Inr u \<Rightarrow>
        (case x3 of Inl e \<Rightarrow> (Inl e, s3) | Inr u \<Rightarrow>
         (case x4 of Inl e \<Rightarrow> (Inl e, s4) | Inr u \<Rightarrow>
           (Inr (),
            notify_listeners (SchedulerEvent EVENT_SCHEDULER_START)
              (emit (Log Info ''Scheduler started'')
                 (s4\<lparr>pending_jobs := [], stopped := False\<rparr>)))))))"
    unfolding start_def using nr
    by (simp only: if_False r1 r2 r3 r4 prod.case split: sum.splits)
  have "s' = notify_listeners (SchedulerEvent EVENT_SCHEDULER_START)
               (emit (Log Info ''Scheduler started'')
                  (s4\<lparr>pending_jobs := [], stopped := False\<rparr>))"
    using ok unfolding unfolded by (simp split: sum.splits)
  then show ?thesis
    by (simp add: running_def notify_listeners_def emit_def)
qed

lemma real_add_job_keeps:
  "real_add_job D s now j a w = (r, j', s') \<Longrightarrow>
     pending_jobs s' = pending_jobs s \<and> stopped s' = stopped s"
  by (auto simp: real_add_job_def Let_def set_jobstore_def notify_listeners_def emit_def wakeup_def
      split: option.splits sum.splits if_splits)

lemma add_job_running_keeps:
  assumes "running s"
  shows "pending_jobs (snd (add_job D s now now' a)) = pending_jobs s
       \<and> stopped (snd (add_job D s now now' a)) = stopped s"
proof (cases "Job D (add_job_kwargs s now a)")
  case (Inl e)
  then show ?thesis by (simp add: add_job_def)
next
  case (Inr j)
  obtain r j' s' where ra: "real_add_job D s now' j (arg_jobstore a) True = (r, j', s')"
    by (cases "real_add_job D s now' j (arg_jobstore a) True")
  from real_add_job_keeps [OF ra] Inr ra assms show ?thesis
    by (cases r) (simp_all add: add_job_def)
qed

lemma remove_job_keeps:
  "pending_jobs s = [] \<Longrightarrow>
     pending_jobs (snd (remove_job D s jid a)) = [] \<and> stopped (snd (remove_job D s jid a)) = stopped s"
  by (simp add: remove_job_def set_jobstore_def notify_listeners_def emit_def
      split: option.splits sum.splits)

lemma modify_job_keeps:
  "pending_jobs s = [] \<Longrightarrow>
     pending_jobs (snd (modify_job D s jid a ch)) = []
     \<and> stopped (snd (modify_job D s jid a ch)) = stopped s"
  by (simp add: modify_job_def set_jobstore_def notify_listeners_def emit_def wakeup_def
      split: option.splits sum.splits)

lemma update_or_remove_keeps:
  assumes "pending_jobs s = []"
  shows "pending_jobs (snd (update_or_remove D now a j ts nwt s)) = []
       \<and> stopped (snd (update_or_remove D now a j ts nwt s)) = stopped s"
proof (cases "remove_job D s (job_id j) a")
  case (Pair r s')
  with remove_job_keeps [OF assms, of D "job_id j" a] assms show ?thesis
    by (simp add: update_or_remove_def set_jobstore_def Let_def split: option.splits sum.splits)
qed

lemma process_job_keeps:
  assumes "pending_jobs s = []"
  shows "pending_jobs (snd (process_job D now a j nwt s)) = []
       \<and> stopped (snd (process_job D now a j nwt s)) = stopped s"
proof (cases "lookup_executor s (executor j)")
  case (Inl e)
  then show ?thesis using assms by (simp add: process_job_def emit_def)
next
  case (Inr ex)
  show ?thesis
  proof (cases "get_run_times D j now")
    case (Inl e)
    with Inr show ?thesis using assms by (simp add: process_job_def)
  next
    case all: (Inr all_run_times)
    let ?ts = "coalesced j all_run_times"
    show ?thesis
    proof (cases "submit_job ex j ?ts")
      case (Some e)
      with Inr all assms show ?thesis by (simp add: process_job_def Let_def emit_def)
    next
      case None
      let ?s1 = "emit (Submit (executor j) (job_id j) ?ts None) s"
      have s1: "pending_jobs ?s1 = []" "stopped ?s1 = stopped s"
        using assms by (simp_all add: emit_def)
      from update_or_remove_keeps [OF s1(1), of D now a j ?ts nwt] s1 Inr all None assms
      show ?thesis by (simp add: process_job_def Let_def)
    qed
  qed
qed

lemma process_due_jobs_keeps:
  "pending_jobs s = [] \<Longrightarrow>
     pending_jobs (snd (process_due_jobs D now a js nwt s)) = []
     \<and> stopped (snd (process_due_jobs D now a js nwt s)) = stopped s"
proof (induction js arbitrary: nwt s)
  case Nil
  then show ?case by simp
next
  case (Cons j js)
  obtain r s' where pj: "process_job D now a j nwt s = (r, s')"
    by (cases "process_job D now a j nwt s")
  have k: "pending_jobs s' = []" "stopped s' = stopped s"
    using process_job_keeps [OF Cons.prems, of D now a j nwt] pj by simp_all
  show ?case
  proof (cases r)
    case (Inl e)
    with pj k show ?thesis by simp
  next
    case (Inr nwt')
    with pj k Cons.IH [OF k(1), of nwt'] show ?thesis by simp
  qed
qed

lemma process_jobstores_keeps:
  "pending_jobs s = [] \<Longrightarrow>
     pending_jobs (snd (process_jobstores D now sts nwt s)) = []
     \<and> stopped (snd (process_jobstores D now sts nwt s)) = stopped s"
proof (induction sts arbitrary: nwt s)
  case Nil
  then show ?case by simp
next
  case (Cons x sts)
  obtain a st where x: "x = (a, st)" by (cases x)
  show ?case
  proof (cases "get_pending_jobs D st now")
    case (Inl e)
    with x Cons.prems show ?thesis by simp
  next
    case (Inr due)
    obtain js t where due: "due = (js, t)" by (cases due)
    obtain r s' where pd:
      "process_due_jobs D now a js (fold_store_wakeup nwt t) s = (r, s')"
      by (cases "process_due_jobs D now a js (fold_store_wakeup nwt t) s")
    have k: "pending_jobs s' = []" "stopped s' = stopped s"
      using process_due_jobs_keeps [OF Cons.prems, of D now a js "fold_store_wakeup nwt t"] pd
      by simp_all
    show ?thesis
    proof (cases r)
      case (Inl e)
      with x Inr due pd k show ?thesis by simp
    next
      case (Inr nwt')
      with x \<open>get_pending_jobs D st now = Inr due\<close> due pd k Cons.IH [OF k(1), of nwt']
      show ?thesis by simp
    qed
  qed
qed

lemma process_jobs_keeps:
  assumes "pending_jobs s = []"
  shows "pending_jobs (snd (process_jobs D s now)) = []
       \<and> stopped (snd (process_jobs D s now)) = stopped s"
proof -
  let ?s0 = "emit (Log Debug ''Looking for jobs to run'') s"
  have s0: "pending_jobs ?s0 = []" "stopped ?s0 = stopped s" "jobstores ?s0 = jobstores s"
    using assms by (simp_all add: emit_def)
  obtain r s' where pj: "process_jobstores D now (jobstores s) None ?s0 = (r, s')"
    by (cases "process_jobstores D now (jobstores s) None ?s0")
  have k: "pending_jobs s' = []" "stopped s' = stopped s"
    using process_jobstores_keeps [OF s0(1), of D now "jobstores s" None] pj s0 by simp_all
  show ?thesis
    using pj k s0
    by (cases r) (simp_all add: process_jobs_def Let_def emit_def split: option.splits)
qed

subsection \<open>The firing loop\<close>



text \<open>
  C2. When the submission of the run times of a due job, which \<^verbatim>\<open>get_run_times\<close> has
  returned, raises \<^verbatim>\<open>MaxInstancesReachedError\<close>, the body of
  the firing loop logs a warning and returns normally with the next wakeup time as it was;
  nothing but the trace changes, so the job keeps its \<^verbatim>\<open>next_run_time\<close> and \<^verbatim>\<open>runs\<close> in
  the store, and the loop goes on with the remaining due jobs. The next scan of the
  unchanged store finds the job again.
\<close>

theorem max_instances_leaves_job_untouched:
  assumes ex: "lookup_executor s (executor j) = Inr ex"
    and all: "get_run_times D j now = Inr all_run_times"
    and rts: "rts = coalesced j all_run_times" "rts \<noteq> []"
    and full: "submit_job ex j rts = Some MaxInstancesReachedError"
  shows "process_job D now alias j nwt s =
           (Inr nwt,
            s\<lparr>trace := trace s @
                 [Submit (executor j) (job_id j) rts (Some MaxInstancesReachedError),
                  Log Warning
                    ''Execution of job \"%s\" skipped: maximum number of running instances reached (%d)'']\<rparr>)
         \<and> jobstores (snd (process_job D now alias j nwt s)) = jobstores s
         \<and> process_due_jobs D now alias (j # js) nwt s =
             process_due_jobs D now alias js nwt (snd (process_job D now alias j nwt s))"
proof -
  have body: "process_job D now alias j nwt s =
           (Inr nwt,
            s\<lparr>trace := trace s @
                 [Submit (executor j) (job_id j) rts (Some MaxInstancesReachedError),
                  Log Warning
                    ''Execution of job \"%s\" skipped: maximum number of running instances reached (%d)'']\<rparr>)"
    using ex all rts(2) full unfolding rts(1)
    by (simp add: process_job_def emit_def Let_def)
  then show ?thesis by simp
qed

text \<open>
  The sample job at instant 20 with an executor that has no free instance: the store still
  holds the job as it was, and a due scan at instant 21 returns it.
\<close>

theorem max_instances_leaves_job_untouched_witness:
  "lookup_executor (scheduler_with False busy_executor [tick_job] []) (executor tick_job)
     = Inr busy_executor
   \<and> get_run_times mem tick_job 20 = Inr [0, 10, 20]
   \<and> coalesced tick_job [0, 10, 20] = [0, 10, 20]
   \<and> submit_job busy_executor tick_job [0, 10, 20] = Some MaxInstancesReachedError
   \<and> fst (process_job mem 20 ''default'' tick_job None
            (scheduler_with False busy_executor [tick_job] [])) = Inr None
   \<and> jobstores (snd (process_job mem 20 ''default'' tick_job None
            (scheduler_with False busy_executor [tick_job] []))) = [(''default'', [tick_job])]
   \<and> mem_get_pending_jobs [tick_job] 21 = Inr ([tick_job], None)"
proof -
  let ?s = "scheduler_with False busy_executor [tick_job] []"
  have h1: "lookup_executor ?s (executor tick_job) = Inr busy_executor"
    by (simp add: lookup_executor_def)
  have h0: "get_run_times mem tick_job 20 = Inr [0, 10, 20]"
    by (simp add: tick_run_times_20)
  have h2: "[0, 10, 20] = coalesced tick_job [0, 10, 20]"
    by (simp add: coalesced_def)
  have h3: "[0, 10, 20 :: int] \<noteq> []" by simp
  have h4: "submit_job busy_executor tick_job [0, 10, 20] = Some MaxInstancesReachedError"
    by (simp add: busy_executor_def)
  show ?thesis
    using h0 h1 h4
      max_instances_leaves_job_untouched [OF h1 h0 h2 h3 h4, of "''default''" None "[]"]
    by (simp add: coalesced_def mem_get_pending_jobs_def is_due_def earliest_after_def)
qed

text \<open>
  C3. For a due job whose executor is found and for which \<^verbatim>\<open>get_run_times\<close> returns a
  list of run times that is not empty, the
  body of the firing loop calls \<^verbatim>\<open>submit_job\<close> exactly once: with the list reduced to its
  last element when \<^verbatim>\<open>coalesce\<close> is set, and with the whole list otherwise.
\<close>

theorem coalesce_submits_last_run_time_once:
  assumes ex: "lookup_executor s (executor j) = Inr ex"
    and rts: "get_run_times D j now = Inr rts" "rts \<noteq> []"
  shows "filter is_submit (trace (snd (process_job D now alias j nwt s))) =
           filter is_submit (trace s) @
             [Submit (executor j) (job_id j) (if coalesce j then [last rts] else rts)
                (submit_job ex j (if coalesce j then [last rts] else rts))]"
proof -
  define ts where "ts = (if coalesce j then [last rts] else rts)"
  have co: "coalesced j rts = ts" and ne: "ts \<noteq> []"
    using rts by (auto simp: coalesced_def ts_def)
  show ?thesis
    using ex rts(1) co ne unfolding ts_def [symmetric]
    by (simp add: process_job_def Let_def emit_def update_or_remove_submits split: option.splits)
qed

text \<open>
  The sample job with \<^verbatim>\<open>coalesce\<close> set, at instant 20: of the run times 0, 10 and 20 only
  20 is submitted, once.
\<close>

theorem coalesce_submits_last_run_time_once_witness:
  "lookup_executor (scheduler_with False idle_executor [tick_job\<lparr>coalesce := True\<rparr>] [])
      (executor (tick_job\<lparr>coalesce := True\<rparr>)) = Inr idle_executor
   \<and> get_run_times mem (tick_job\<lparr>coalesce := True\<rparr>) 20 = Inr [0, 10, 20]
   \<and> filter is_submit
        (trace (snd (process_job mem 20 ''default'' (tick_job\<lparr>coalesce := True\<rparr>) None
           (scheduler_with False idle_executor [tick_job\<lparr>coalesce := True\<rparr>] []))))
       = [Submit ''default'' (PyStr ''tick'') [20] None]"
proof -
  let ?j = "tick_job\<lparr>coalesce := True\<rparr>"
  let ?s = "scheduler_with False idle_executor [?j] []"
  have h1: "lookup_executor ?s (executor ?j) = Inr idle_executor"
    by (simp add: lookup_executor_def)
  have h2: "get_run_times mem ?j 20 = Inr [0, 10, 20]"
    by (simp add: coalescing_tick_run_times_20)
  have h3: "[0, 10, 20 :: int] \<noteq> []" by simp
  show ?thesis
    using h1 h2 coalesce_submits_last_run_time_once [OF h1 h2 h3, of "''default''" None]
    by (simp add: idle_executor_def)
qed





subsection \<open>\<^verbatim>\<open>max_runs\<close>\<close>

text \<open>
  A job that has reached \<^verbatim>\<open>max_runs\<close> with a submission is removed once the trigger has
  returned, so the firing loop never writes a value of \<^verbatim>\<open>runs\<close> that is not below
  \<^verbatim>\<open>max_runs\<close>.
\<close>

lemma job_at_max_runs_is_removed:
  "max_runs j = Some m \<Longrightarrow> m \<le> runs j + int (length run_times) \<Longrightarrow>
     add_microsecond now = Inr after \<Longrightarrow> trigger j after = Inr next_run \<Longrightarrow>
     update_or_remove D now a j run_times nwt s =
       (case remove_job D s (job_id j) a of
          (Inl e, s') \<Rightarrow> (Inl e, s')
        | (Inr u, s') \<Rightarrow> (Inr nwt, s'))"
  by (simp add: update_or_remove_def Let_def)

text \<open>
  C5 fails on the number of submitted run times. The sample job may run twice
  (\<open>max_runs = 2\<close>, \<open>runs = 0\<close>), does not coalesce, and has the three fire times 0, 10 and
  20 due at instant 20: the firing loop submits all three.
\<close>

theorem backlog_is_submitted_beyond_max_runs:
  "max_runs tick_job = Some 2 \<and> runs tick_job = 0
   \<and> filter is_submit
        (trace (snd (process_jobs mem (scheduler_with False idle_executor [tick_job] []) 20)))
       = [Submit ''default'' (PyStr ''tick'') [0, 10, 20] None]"
  by (simp add: sample_backlog_run)

subsection \<open>Lifecycle\<close>

lemma shutdown_executors_keeps:
  "stopped (snd (shutdown_executors w exs s)) = stopped s"
proof (induction exs arbitrary: s)
  case Nil
  show ?case by simp
next
  case (Cons x exs)
  obtain a ex where x: "x = (a, ex)" by (cases x)
  show ?case
  proof (cases "exec_shutdown ex w")
    case None
    then show ?thesis
      using Cons [of "emit (ExecutorShutdown a w) s"] x by (simp add: emit_def)
  next
    case (Some e)
    then show ?thesis using x by simp
  qed
qed

lemma close_jobstores_keeps:
  "stopped (snd (close_jobstores D sts s)) = stopped s"
proof (induction sts arbitrary: s)
  case Nil
  show ?case by simp
next
  case (Cons x sts)
  obtain a st where x: "x = (a, st)" by (cases x)
  show ?case
  proof (cases "store_close D st")
    case (Inl e)
    then show ?thesis using x by simp
  next
    case (Inr st')
    then show ?thesis
      using Cons [of "set_jobstore a st' s"] x by (simp add: set_jobstore_def)
  qed
qed

lemma shutdown_stops: "running s \<Longrightarrow> stopped (snd (shutdown D s w))"
proof -
  assume r: "running s"
  let ?s1 = "s\<lparr>stopped := True\<rparr>"
  obtain r2 s2 where e2: "shutdown_executors w (executors ?s1) ?s1 = (r2, s2)"
    by (cases "shutdown_executors w (executors ?s1) ?s1")
  obtain r3 s3 where e3: "close_jobstores D (jobstores s2) s2 = (r3, s3)"
    by (cases "close_jobstores D (jobstores s2) s2")
  have st2: "stopped s2" using shutdown_executors_keeps [of w "executors ?s1" ?s1] e2 by simp
  have st3: "stopped s3" using close_jobstores_keeps [of D "jobstores s2" s2] e3 st2 by simp
  show ?thesis
    using r e2 e3 st2 st3
    by (simp add: shutdown_def Let_def notify_listeners_def emit_def split: sum.splits)
qed

text \<open>
  C7, as amended. After \<^verbatim>\<open>shutdown(wait)\<close> has returned, the scheduler is stopped and a
  second call of \<^verbatim>\<open>shutdown\<close> raises \<^verbatim>\<open>SchedulerNotRunningError\<close>, leaving the state as
  it is. \<^verbatim>\<open>add_job\<close> is not refused: it raises only what the \<^verbatim>\<open>Job\<close> constructor raises,
  and otherwise appends the job to the pending list, logs, and returns a handle.
\<close>

theorem after_shutdown_jobs_are_parked:
  assumes "shutdown D s wait = (Inr (), s')"
  shows "stopped s'
       \<and> shutdown D s' wait' = (Inl SchedulerNotRunningError, s')
       \<and> add_job D s' now now' a =
           (case Job D (add_job_kwargs s' now a) of
              Inl e \<Rightarrow> (Inl e, s')
            | Inr j \<Rightarrow>
               (Inr \<lparr>handle_jobstore = arg_jobstore a, handle_job = j\<rparr>,
                s'\<lparr>pending_jobs := pending_jobs s' @ [(j, arg_jobstore a)],
                   trace := trace s' @
                     [Log Info
                        ''Adding job tentatively -- it will be properly scheduled when the scheduler starts'']\<rparr>))"
proof -
  have run: "running s"
    using assms by (auto simp: shutdown_def split: if_splits)
  have st: "stopped s'"
    using shutdown_stops [OF run, of D wait] assms by simp
  then show ?thesis
    by (simp add: shutdown_def add_job_def running_def emit_def split: sum.splits)
qed

text \<open>
  The sample scheduler: \<^verbatim>\<open>shutdown(True)\<close> returns, a second \<^verbatim>\<open>shutdown\<close> raises, and
  \<^verbatim>\<open>add_job\<close> parks the new job for the store \<^verbatim>\<open>default\<close>.
\<close>

theorem after_shutdown_jobs_are_parked_witness:
  "shutdown mem (scheduler_with False idle_executor [tick_job] []) True =
     (Inr (),
      (scheduler_with True idle_executor [tick_job] [])
        \<lparr>trace := [ExecutorShutdown ''default'' True, Log Info ''Scheduler has been shut down'',
                   Notify (SchedulerEvent EVENT_SCHEDULER_SHUTDOWN)]\<rparr>)
   \<and> fst (shutdown mem
        ((scheduler_with True idle_executor [tick_job] [])
          \<lparr>trace := [ExecutorShutdown ''default'' True, Log Info ''Scheduler has been shut down'',
                     Notify (SchedulerEvent EVENT_SCHEDULER_SHUTDOWN)]\<rparr>) False)
       = Inl SchedulerNotRunningError
   \<and> map (\<lambda>(j, a). (job_id j, a))
        (pending_jobs (snd (add_job mem
          ((scheduler_with True idle_executor [tick_job] [])
            \<lparr>trace := [ExecutorShutdown ''default'' True, Log Info ''Scheduler has been shut down'',
                       Notify (SchedulerEvent EVENT_SCHEDULER_SHUTDOWN)]\<rparr>) 1000 1001 run_now_args)))
       = [(PyStr ''now'', ''default'')]"
proof -
  let ?s' = "(scheduler_with True idle_executor [tick_job] [])
        \<lparr>trace := [ExecutorShutdown ''default'' True, Log Info ''Scheduler has been shut down'',
                   Notify (SchedulerEvent EVENT_SCHEDULER_SHUTDOWN)]\<rparr>"
  have kw: "spec_Job (add_job_kwargs ?s' 1000 run_now_args) =
     Inr \<lparr>job_id = PyStr ''now'', func = ''tasks:tick'', args = [], kwargs = [],
          name = PyNone,
          trigger = date_trigger 1000, executor = ''default'',
          misfire_grace_time = Some 1, coalesce = True, max_runs = None,
          max_instances = 1, next_run_time = None, runs = 0\<rparr>"
    by (rule sample_run_now_job) simp_all
  show ?thesis
    using sample_shutdown
      after_shutdown_jobs_are_parked [OF sample_shutdown, of False 1000 1001 run_now_args]
    by (simp add: kw)
qed

text \<open>
  C7 as stated fails: on the sample scheduler \<^verbatim>\<open>shutdown\<close> returns, and \<^verbatim>\<open>add_job\<close>
  after it returns a handle instead of raising \<^verbatim>\<open>SchedulerNotRunningError\<close>.
\<close>

theorem add_job_after_shutdown_succeeds:
  "fst (shutdown mem (scheduler_with False idle_executor [tick_job] []) True) = Inr ()
   \<and> fst (add_job mem (snd (shutdown mem (scheduler_with False idle_executor [tick_job] []) True))
            1000 1001 run_now_args)
       = Inr \<lparr>handle_jobstore = ''default'',
              handle_job =
                \<lparr>job_id = PyStr ''now'', func = ''tasks:tick'', args = [], kwargs = [],
          name = PyNone,
                 trigger = date_trigger 1000, executor = ''default'',
                 misfire_grace_time = Some 1, coalesce = True, max_runs = None,
                 max_instances = 1, next_run_time = None, runs = 0\<rparr>\<rparr>"
proof -
  let ?s' = "(scheduler_with True idle_executor [tick_job] [])
        \<lparr>trace := [ExecutorShutdown ''default'' True, Log Info ''Scheduler has been shut down'',
                   Notify (SchedulerEvent EVENT_SCHEDULER_SHUTDOWN)]\<rparr>"
  have kw: "spec_Job (add_job_kwargs ?s' 1000 run_now_args) =
     Inr \<lparr>job_id = PyStr ''now'', func = ''tasks:tick'', args = [], kwargs = [],
          name = PyNone,
          trigger = date_trigger 1000, executor = ''default'',
          misfire_grace_time = Some 1, coalesce = True, max_runs = None,
          max_instances = 1, next_run_time = None, runs = 0\<rparr>"
    by (rule sample_run_now_job) simp_all
  have "\<not> running ?s'" by (simp add: running_def)
  then show ?thesis
    by (simp add: sample_shutdown add_job_def kw emit_def)
qed

subsection \<open>\<^verbatim>\<open>add_job\<close> without a trigger\<close>

text \<open>
  The keyword argument \<^verbatim>\<open>misfire_grace_time\<close> that \<^verbatim>\<open>add_job\<close> gives to the \<^verbatim>\<open>Job\<close>
  constructor is never \<^verbatim>\<open>None\<close>. Without a trigger, the trigger is the plugin \<^verbatim>\<open>date\<close>
  with \<^verbatim>\<open>run_date\<close> the current time, and the grace time is the default of the scheduler.
\<close>

lemma add_job_kwargs_grace_never_none:
  "kw_misfire_grace_time (add_job_kwargs s now a) \<noteq> None"
  by (simp add: add_job_kwargs_def Let_def split: option.splits)

lemma add_job_kwargs_no_trigger:
  "arg_trigger a = None \<Longrightarrow>
     kw_trigger (add_job_kwargs s now a) = TriggerName ''date''
     \<and> map_of (kw_trigger_args (add_job_kwargs s now a)) ''run_date'' = Some (PyDateTime now)
     \<and> kw_misfire_grace_time (add_job_kwargs s now a) = Some (sched_misfire_grace_time s)"
  by (simp add: add_job_kwargs_def Let_def setdefault_def update_conv')

text \<open>
  C4 fails on the grace time. \<^verbatim>\<open>add_job\<close> without a trigger, on a stopped scheduler with
  the timezone UTC and the default grace time 1, at instant 1000: the trigger is the
  plugin \<^verbatim>\<open>date\<close> with \<^verbatim>\<open>run_date = 1000\<close> in the timezone UTC, as C4 says, but the
  constructor receives the grace time 1 and the pending job has the grace time 1, where C4
  says \<^verbatim>\<open>None\<close>.
\<close>

theorem run_now_job_gets_default_grace_time:
  "arg_trigger run_now_args = None
   \<and> kw_trigger (add_job_kwargs (scheduler_with True idle_executor [] []) 1000 run_now_args)
       = TriggerName ''date''
   \<and> kw_trigger_args (add_job_kwargs (scheduler_with True idle_executor [] []) 1000 run_now_args)
       = [(''run_date'', PyDateTime 1000), (''timezone'', PyTz ''UTC'')]
   \<and> kw_misfire_grace_time
        (add_job_kwargs (scheduler_with True idle_executor [] []) 1000 run_now_args) = Some 1
   \<and> map (\<lambda>(j, a). misfire_grace_time j)
        (pending_jobs (snd (add_job mem (scheduler_with True idle_executor [] []) 1000 1001
           run_now_args))) = [Some 1]"
  by (simp add: add_job_def add_job_kwargs_def run_now_args_def spec_Job_def setdefault_def
      running_def emit_def Let_def)

subsection \<open>\<^verbatim>\<open>modify_job\<close> and \<^verbatim>\<open>remove_job\<close>\<close>

text \<open>
  C8, as amended. Let \<^verbatim>\<open>modify_job\<close> be called with an empty change set for a job that is
  not pending and is found in the store of the given alias, let the validation of the empty
  change set return it, and let \<^verbatim>\<open>modify_job\<close> of the store with no changes leave the store
  as it is. Then the call returns and the job and its store are unchanged, but one
  \<^verbatim>\<open>EVENT_JOBSTORE_JOB_MODIFIED\<close> is emitted and a wakeup is requested.
\<close>

theorem modify_job_without_changes_notifies:
  assumes np: "\<forall>(p, a) \<in> set (pending_jobs s). job_id p \<noteq> jid"
    and st: "map_of (jobstores s) alias = Some st"
    and found: "store_lookup_job D st jid = Inr j"
    and valid: "validate_changes D j [] = Inr []"
    and same: "store_modify_job D st jid [] = Inr st"
  shows "modify_job D s jid alias [] =
           (Inr (),
            s\<lparr>trace := trace s @
                 [Notify (JobStoreEvent EVENT_JOBSTORE_JOB_MODIFIED alias (Some jid)), Wakeup]\<rparr>)"
proof -
  have mp: "modify_pending D jid [] (pending_jobs s) = None"
    using np by (simp add: modify_pending_none)
  have up: "AList.update alias st (jobstores s) = jobstores s"
    using st by (rule AList.update_triv)
  show ?thesis
    using mp st found valid same up
    by (simp add: modify_job_def wakeup_def notify_listeners_def emit_def set_jobstore_def)
qed

text \<open>The sample scheduler and the in-memory store.\<close>

theorem modify_job_without_changes_notifies_witness:
  "map_of (jobstores (scheduler_with False idle_executor [tick_job] [])) ''default''
     = Some [tick_job]
   \<and> store_lookup_job mem [tick_job] (PyStr ''tick'') = Inr tick_job
   \<and> validate_changes mem tick_job [] = Inr []
   \<and> store_modify_job mem [tick_job] (PyStr ''tick'') [] = Inr [tick_job]
   \<and> modify_job mem (scheduler_with False idle_executor [tick_job] []) (PyStr ''tick'') ''default'' []
       = (Inr (),
          (scheduler_with False idle_executor [tick_job] [])
            \<lparr>trace := [Notify (JobStoreEvent EVENT_JOBSTORE_JOB_MODIFIED ''default''
                                 (Some (PyStr ''tick''))), Wakeup]\<rparr>)"
proof -
  let ?s = "scheduler_with False idle_executor [tick_job] []"
  have h1: "\<forall>(p, a) \<in> set (pending_jobs ?s). job_id p \<noteq> PyStr ''tick''" by simp
  have h2: "map_of (jobstores ?s) ''default'' = Some [tick_job]" by simp
  have h3: "store_lookup_job mem [tick_job] (PyStr ''tick'') = Inr tick_job"
    by (simp add: mem_lookup_job_def)
  have h4: "validate_changes mem tick_job [] = Inr []"
    by (simp add: spec_validate_changes_def)
  have h5: "store_modify_job mem [tick_job] (PyStr ''tick'') [] = Inr [tick_job]"
    by (simp add: mem_modify_job_def has_job_def)
  show ?thesis
    using h2 h3 h4 h5 modify_job_without_changes_notifies [OF h1 h2 h3 h4 h5]
    by simp
qed

text \<open>
  C8 as stated fails: on the sample scheduler, whose trace is empty, \<^verbatim>\<open>modify_job\<close> with
  no changes returns and has emitted an event and a wakeup.
\<close>

theorem modify_job_without_changes_emits_event:
  "fst (modify_job mem (scheduler_with False idle_executor [tick_job] []) (PyStr ''tick'')
          ''default'' []) = Inr ()
   \<and> trace (scheduler_with False idle_executor [tick_job] []) = []
   \<and> trace (snd (modify_job mem (scheduler_with False idle_executor [tick_job] [])
          (PyStr ''tick'') ''default'' []))
       = [Notify (JobStoreEvent EVENT_JOBSTORE_JOB_MODIFIED ''default'' (Some (PyStr ''tick''))),
          Wakeup]"
  by (simp add: modify_job_def mem_lookup_job_def spec_validate_changes_def mem_modify_job_def
      has_job_def wakeup_def notify_listeners_def emit_def set_jobstore_def)

text \<open>
  C10, as amended. When the pending list holds a job with the given id, \<^verbatim>\<open>remove_job\<close>
  and \<^verbatim>\<open>modify_job\<close> work on the first entry of the pending list with that id, and on no
  other entry, whatever store alias they are given (it need not be the alias the entry is
  destined for, nor the alias of a registered store): \<^verbatim>\<open>remove_job\<close> deletes that entry
  and returns; \<^verbatim>\<open>modify_job\<close> replaces its job by the result of \<^verbatim>\<open>job.modify(changes)\<close>
  and returns, or raises what \<^verbatim>\<open>job.modify\<close> raises. The entries before and after it,
  among them the later entries with the same id, stay as they are, and nothing else in
  the scheduler changes: no store is read or written, no event is emitted, no wakeup is
  requested.
\<close>

theorem pending_job_is_matched_by_id_alone:
  assumes "pending_jobs s = pre @ (j, a) # post"
    and "\<forall>(p, b) \<in> set pre. job_id p \<noteq> jid"
    and "job_id j = jid"
  shows "remove_job D s jid alias = (Inr (), s\<lparr>pending_jobs := pre @ post\<rparr>)
       \<and> modify_job D s jid alias ch =
           (case modify D j ch of
              Inl e \<Rightarrow> (Inl e, s)
            | Inr j' \<Rightarrow> (Inr (), s\<lparr>pending_jobs := pre @ (j', a) # post\<rparr>))"
  using assms
  by (simp add: remove_job_def modify_job_def del_pending_first modify_pending_first
        split: sum.splits)

text \<open>
  A stopped scheduler with the sample job pending for the store \<^verbatim>\<open>default\<close>, and calls
  that name a store \<^verbatim>\<open>archive\<close>, which does not exist.
\<close>

theorem pending_job_is_matched_by_id_alone_witness:
  "pending_jobs (scheduler_with True idle_executor [] [(tick_job, ''default'')])
     = [] @ (tick_job, ''default'') # []
   \<and> job_id tick_job = PyStr ''tick''
   \<and> remove_job mem (scheduler_with True idle_executor [] [(tick_job, ''default'')])
        (PyStr ''tick'') ''archive''
       = (Inr (), scheduler_with True idle_executor [] [])
   \<and> modify_job mem (scheduler_with True idle_executor [] [(tick_job, ''default'')])
        (PyStr ''tick'') ''archive'' [(''name'', PyStr ''tock'')]
       = (Inr (),
          scheduler_with True idle_executor [] [(tick_job\<lparr>name := PyStr ''tock''\<rparr>, ''default'')])"
proof -
  let ?s = "scheduler_with True idle_executor [] [(tick_job, ''default'')]"
  have h1: "pending_jobs ?s = [] @ (tick_job, ''default'') # []" by simp
  have h2: "\<forall>(p, b) \<in> set []. job_id p \<noteq> PyStr ''tick''" by simp
  have h3: "job_id tick_job = PyStr ''tick''" by simp
  show ?thesis
    using pending_job_is_matched_by_id_alone
            [OF h1 h2 h3, of mem "''archive''" "[(''name'', PyStr ''tock'')]"]
    by (simp add: scheduler_with_def spec_modify_def spec_validate_changes_def known_change_def
        apply_change_def)
qed

text \<open>
  C10 as stated fails for the pending jobs with a matching id after the first. In the
  stopped scheduler with two pending jobs of the id \<^verbatim>\<open>now\<close>, \<^verbatim>\<open>remove_job\<close> returns and
  has deleted the first only: a job with the id \<^verbatim>\<open>now\<close> is still pending. \<^verbatim>\<open>modify_job\<close>
  with a new name returns and has renamed the first only.
\<close>

theorem later_pending_job_with_same_id_is_untouched:
  "map (\<lambda>(j, a). (job_id j, func j, a)) (pending_jobs same_id_twice)
     = [(PyStr ''now'', ''tasks:tick'', ''default''), (PyStr ''now'', ''tasks:tock'', ''archive'')]
   \<and> fst (remove_job mem same_id_twice (PyStr ''now'') ''archive'') = Inr ()
   \<and> map (\<lambda>(j, a). (job_id j, func j, a))
        (pending_jobs (snd (remove_job mem same_id_twice (PyStr ''now'') ''archive'')))
     = [(PyStr ''now'', ''tasks:tock'', ''archive'')]
   \<and> fst (modify_job mem same_id_twice (PyStr ''now'') ''archive'' [(''name'', PyStr ''later'')])
     = Inr ()
   \<and> map (\<lambda>(j, a). (job_id j, func j, name j))
        (pending_jobs (snd (modify_job mem same_id_twice (PyStr ''now'') ''archive''
           [(''name'', PyStr ''later'')])))
     = [(PyStr ''now'', ''tasks:tick'', PyStr ''later''), (PyStr ''now'', ''tasks:tock'', PyNone)]"
  by (simp add: same_id_twice_def add_job_def add_job_kwargs_def run_now_args_def spec_Job_def
      setdefault_def running_def emit_def remove_job_def modify_job_def spec_modify_def
      spec_validate_changes_def known_change_def apply_change_def Let_def)

subsection \<open>\<^verbatim>\<open>get_jobs\<close>\<close>

text \<open>
  With a store alias that is not empty, \<^verbatim>\<open>get_jobs\<close> raises unless only pending jobs are
  asked for.
\<close>

lemma get_jobs_of_one_store_raises:
  "truthy jobstore \<Longrightarrow> pending \<noteq> Some True \<Longrightarrow>
     get_jobs D s jobstore pending = Inl (AttributeError ''items'')"
  by (simp add: get_jobs_def Let_def)

text \<open>
  C9 fails when a store alias is given: \<^verbatim>\<open>get_jobs('default')\<close> on the sample scheduler,
  which has the store \<^verbatim>\<open>default\<close>, raises \<^verbatim>\<open>AttributeError\<close> instead of returning the
  handles of that store.
\<close>

theorem get_jobs_with_alias_raises:
  "get_jobs mem (scheduler_with False idle_executor [tick_job] []) (Some ''default'') None
     = Inl (AttributeError ''items'')"
  by (simp add: get_jobs_def truthy_def Let_def)

end
